theory Spec2Isabelle
  imports Main "HOL-Library.AList"
begin

section \<open>JavaScript values\<close>

text \<open>
  The values that travel through the response cache and the browser's key-value store are
  what \<^verbatim>\<open>response.json()\<close> and \<^verbatim>\<open>JSON.parse\<close> produce. \<open>JNull\<close> is JavaScript's
  \<^verbatim>\<open>null\<close>; numbers are the integers (identifiers, page counts, timestamps in
  milliseconds).
\<close>

datatype json =
    JNull
  | JBool bool
  | JNum int
  | JStr string
  | JArr "json list"
  | JObj "(string \<times> json) list"

text \<open>Truthiness, as \<^verbatim>\<open>if (x)\<close> and \<^verbatim>\<open>!x\<close> test it.\<close>

fun truthy :: "json \<Rightarrow> bool" where
  "truthy JNull = False"
| "truthy (JBool b) = b"
| "truthy (JNum n) = (n \<noteq> 0)"
| "truthy (JStr s) = (s \<noteq> [])"
| "truthy (JArr xs) = True"
| "truthy (JObj fs) = True"

section \<open>MovieAPI: the response cache\<close>

text \<open>
  \<^verbatim>\<open>this.cache = new Map(); this.cacheExpiry = 5 * 60 * 1000;\<close>
  An entry is the object \<^verbatim>\<open>{ data, timestamp }\<close>. \<^verbatim>\<open>Date.now()\<close> is passed in as
  the first argument of every operation that reads the clock.
\<close>

record entry =
  data :: json
  timestamp :: int

type_synonym 'k cache = "'k \<rightharpoonup> entry"

definition cacheExpiry :: int where
  "cacheExpiry = 5 * 60 * 1000"

text \<open>
  \<^verbatim>\<open>setCache(key, data) { this.cache.set(key, { data, timestamp: Date.now() }); }\<close>
\<close>

definition setCache :: "int \<Rightarrow> 'k \<Rightarrow> json \<Rightarrow> 'k cache \<Rightarrow> 'k cache" where
  "setCache now key d c = c(key \<mapsto> \<lparr>data = d, timestamp = now\<rparr>)"

text \<open>
  \<^verbatim>\<open>
  getCache(key) {
      const cached = this.cache.get(key);
      if (!cached) return null;
      const isExpired = Date.now() - cached.timestamp > this.cacheExpiry;
      if (isExpired) { this.cache.delete(key); return null; }
      return cached.data;
  }
  \<close>
  The result is the returned value together with the cache after the call.
\<close>

definition getCache :: "int \<Rightarrow> 'k \<Rightarrow> 'k cache \<Rightarrow> json \<times> 'k cache" where
  "getCache now key c =
     (case c key of
        None \<Rightarrow> (JNull, c)
      | Some cached \<Rightarrow>
          if now - timestamp cached > cacheExpiry then (JNull, c(key := None))
          else (data cached, c))"

section \<open>Strings\<close>

text \<open>
  \<^verbatim>\<open>String.prototype.trim\<close> removes white space and line terminators from both ends.
  A \<open>char\<close> is one code unit below 256; the white space among those is TAB, LF, VT, FF,
  CR, SPACE and NO-BREAK SPACE.
\<close>

definition is_ws :: "char \<Rightarrow> bool" where
  "is_ws ch = (ch \<in> set [CHR 0x09, CHR 0x0A, CHR 0x0B, CHR 0x0C, CHR 0x0D, CHR 0x20, CHR 0xA0])"

definition trim :: "string \<Rightarrow> string" where
  "trim s = rev (dropWhile is_ws (rev (dropWhile is_ws s)))"

text \<open>Decimal digits of a number, as a template literal prints an integer.\<close>

fun digits :: "nat \<Rightarrow> string" where
  "digits n =
     (if n < 10 then [''0123456789'' ! n]
      else digits (n div 10) @ [''0123456789'' ! (n mod 10)])"

declare digits.simps [simp del]

fun join_with :: "string \<Rightarrow> string list \<Rightarrow> string" where
  "join_with sep [] = []"
| "join_with sep [x] = x"
| "join_with sep (x # y # ys) = x @ sep @ join_with sep (y # ys)"

text \<open>
  \<^verbatim>\<open>`${x}`\<close> for a value: \<open>None\<close> is \<^verbatim>\<open>undefined\<close>. An array prints its elements
  joined by commas, a null element as the empty string.
\<close>

fun js_string :: "json \<Rightarrow> string" where
  "js_string JNull = ''null''"
| "js_string (JBool b) = (if b then ''true'' else ''false'')"
| "js_string (JNum n) = (if n < 0 then CHR ''-'' # digits (nat (- n)) else digits (nat n))"
| "js_string (JStr s) = s"
| "js_string (JArr xs) = join_with '','' (map (\<lambda>x. if x = JNull then [] else js_string x) xs)"
| "js_string (JObj fs) = ''[object Object]''"

definition template :: "json option \<Rightarrow> string" where
  "template x = (case x of None \<Rightarrow> ''undefined'' | Some v \<Rightarrow> js_string v)"

text \<open>Property read \<^verbatim>\<open>x?.name\<close> / \<^verbatim>\<open>x.name\<close> on a parsed JSON value that is not null.\<close>

definition js_get :: "json \<Rightarrow> string \<Rightarrow> json option" where
  "js_get x name = (case x of JObj fs \<Rightarrow> map_of fs name | _ \<Rightarrow> None)"

section \<open>MovieAPI: requests\<close>

text \<open>
  A URL is kept as its parts, the address \<^verbatim>\<open>baseURL + endpoint\<close> and the search
  parameters in order, instead of their serialisation \<^verbatim>\<open>url.toString()\<close>; it is the
  cache key (\<^verbatim>\<open>getCacheKey(url) { return url; }\<close>).
\<close>

datatype url = URL string "(string \<times> string) list"

record movie_api =
  apiKey :: "string option"
  cache :: "url cache"

definition baseURL :: string where
  "baseURL = ''https://api.themoviedb.org/3''"

text \<open>
  \<^verbatim>\<open>
  buildURL(endpoint, params = {}) {
      const url = new URL(`${this.baseURL}${endpoint}`);
      url.searchParams.set('api_key', this.apiKey);
      Object.entries(params).forEach(([key, value]) => {
          if (value !== null && value !== undefined) url.searchParams.set(key, value);
      });
      return url.toString();
  }
  \<close>
  \<^verbatim>\<open>searchParams.set\<close> replaces the value of a name already present and appends
  otherwise; a null \<^verbatim>\<open>apiKey\<close> is written as the text \<^verbatim>\<open>null\<close>.
\<close>

definition buildURL :: "movie_api \<Rightarrow> string \<Rightarrow> (string \<times> json) list \<Rightarrow> url" where
  "buildURL api endpoint params =
     URL (baseURL @ endpoint)
       (fold (\<lambda>(key, value) sp. if value \<noteq> JNull then AList.update key (js_string value) sp else sp)
          params
          [(''api_key'', case apiKey api of None \<Rightarrow> ''null'' | Some a \<Rightarrow> a)])"

text \<open>
  \<^verbatim>\<open>
  async fetchData(endpoint, params = {}) {
      const url = this.buildURL(endpoint, params);
      const cacheKey = this.getCacheKey(url);
      const cached = this.getCache(cacheKey);
      if (cached) return cached;
      try {
          const response = await fetch(url);
          if (!response.ok) throw new Error(`HTTP error! status: ${response.status}`);
          const data = await response.json();
          this.setCache(cacheKey, data);
          return data;
      } catch (error) {
          throw new Error('Failed to fetch data. Please check your internet connection.');
      }
  }
  \<close>
  The function runs in two parts. \<open>fetchData_start\<close> is the part before the first
  \<^verbatim>\<open>await\<close>, at time \<open>t0\<close>: it answers from the cache (\<open>Inr\<close>) or asks the network for
  a URL (\<open>Inl\<close>). \<open>fetchData_finish\<close> is the part after the network has answered, at
  time \<open>t1\<close>: the network's answer is \<open>Some data\<close>, or \<open>None\<close> for each of the three
  failures that the \<^verbatim>\<open>catch\<close> treats alike (a rejected \<^verbatim>\<open>fetch\<close>, a status that is
  not ok, a body that is not JSON). A rejected promise is \<open>Inl message\<close>.
\<close>

definition fetchData_start ::
  "int \<Rightarrow> string \<Rightarrow> (string \<times> json) list \<Rightarrow> movie_api \<Rightarrow> (url + json) \<times> movie_api" where
  "fetchData_start t0 endpoint params api =
     (let u = buildURL api endpoint params;
          (cached, c) = getCache t0 u (cache api)
      in if truthy cached then (Inr cached, api\<lparr>cache := c\<rparr>)
         else (Inl u, api\<lparr>cache := c\<rparr>))"

definition fetch_failed :: string where
  "fetch_failed = ''Failed to fetch data. Please check your internet connection.''"

definition fetchData_finish ::
  "int \<Rightarrow> url \<Rightarrow> json option \<Rightarrow> movie_api \<Rightarrow> (string + json) \<times> movie_api" where
  "fetchData_finish t1 u answer api =
     (case answer of
        None \<Rightarrow> (Inl fetch_failed, api)
      | Some d \<Rightarrow> (Inr d, api\<lparr>cache := setCache t1 u d (cache api)\<rparr>))"

text \<open>
  A whole call with nothing else running in between: \<open>net\<close> is what the network answers
  for each URL. The third component lists the URLs requested from the network.
\<close>

definition fetchData ::
  "(url \<Rightarrow> json option) \<Rightarrow> int \<Rightarrow> int \<Rightarrow> string \<Rightarrow> (string \<times> json) list \<Rightarrow> movie_api
     \<Rightarrow> (string + json) \<times> movie_api \<times> url list" where
  "fetchData net t0 t1 endpoint params api =
     (case fetchData_start t0 endpoint params api of
        (Inr cached, api') \<Rightarrow> (Inr cached, api', [])
      | (Inl u, api') \<Rightarrow>
          (let (r, api'') = fetchData_finish t1 u (net u) api' in (r, api'', [u])))"

text \<open>
  \<^verbatim>\<open>
  async searchMovies(query, page = 1) {
      if (!query.trim()) return { results: [], total_pages: 0, page: 1 };
      return this.fetchData('/search/movie', { query: query.trim(), page });
  }
  async getMovieDetails(movieId) {
      return this.fetchData(`/movie/${movieId}`, { append_to_response: 'credits,videos,similar' });
  }
  \<close>
\<close>

definition no_results :: json where
  "no_results = JObj [(''results'', JArr []), (''total_pages'', JNum 0), (''page'', JNum 1)]"

definition searchMovies ::
  "(url \<Rightarrow> json option) \<Rightarrow> int \<Rightarrow> int \<Rightarrow> string \<Rightarrow> int \<Rightarrow> movie_api
     \<Rightarrow> (string + json) \<times> movie_api \<times> url list" where
  "searchMovies net t0 t1 query page api =
     (if trim query = [] then (Inr no_results, api, [])
      else fetchData net t0 t1 ''/search/movie''
             [(''query'', JStr (trim query)), (''page'', JNum page)] api)"

definition getMovieDetails_start :: "int \<Rightarrow> json \<Rightarrow> movie_api \<Rightarrow> (url + json) \<times> movie_api" where
  "getMovieDetails_start t0 movieId api =
     fetchData_start t0 (''/movie/'' @ js_string movieId)
       [(''append_to_response'', JStr ''credits,videos,similar'')] api"

text \<open>The URL that \<^verbatim>\<open>getMovieDetails\<close> builds for a movie, the key of its cache entry.\<close>

definition details_url :: "movie_api \<Rightarrow> json \<Rightarrow> url" where
  "details_url api movieId =
     buildURL api (''/movie/'' @ js_string movieId)
       [(''append_to_response'', JStr ''credits,videos,similar'')]"

section \<open>AuthManager and FavoritesManager: persisted state\<close>

text \<open>
  \<^verbatim>\<open>localStorage\<close> maps names to strings. \<^verbatim>\<open>JSON.parse\<close> belongs to the platform and is a
  parameter \<open>parse\<close>: \<open>None\<close> is a \<^verbatim>\<open>SyntaxError\<close>. \<^verbatim>\<open>currentUser\<close> is a parsed
  value, \<open>JNull\<close> when nobody is signed in.

  \<^verbatim>\<open>
  constructor() { this.currentUser = null; this.authModal = null; this.initializeAuth(); }
  initializeAuth() {
      const savedUser = localStorage.getItem('cinescope_user');
      if (savedUser) {
          try { this.currentUser = JSON.parse(savedUser); this.updateAuthUI(); }
          catch (error) { localStorage.removeItem('cinescope_user'); }
      }
      this.setupEventListeners();
  }
  isAuthenticated() { return this.currentUser !== null; }
  \<close>
  The state is the pair of \<^verbatim>\<open>currentUser\<close> and the store. The elements that
  \<^verbatim>\<open>updateAuthUI\<close> writes to are taken to exist.
\<close>

type_synonym storage = "string \<rightharpoonup> string"

definition initializeAuth :: "(string \<Rightarrow> json option) \<Rightarrow> json \<times> storage \<Rightarrow> json \<times> storage" where
  "initializeAuth parse st =
     (case st of (currentUser, ls) \<Rightarrow>
        (case ls ''cinescope_user'' of
           None \<Rightarrow> (currentUser, ls)
         | Some savedUser \<Rightarrow>
             if savedUser = [] then (currentUser, ls)
             else (case parse savedUser of
                     Some u \<Rightarrow> (u, ls)
                   | None \<Rightarrow> (currentUser, ls(''cinescope_user'' := None)))))"

definition AuthManager_new :: "(string \<Rightarrow> json option) \<Rightarrow> storage \<Rightarrow> json \<times> storage" where
  "AuthManager_new parse ls = initializeAuth parse (JNull, ls)"

definition isAuthenticated :: "json \<Rightarrow> bool" where
  "isAuthenticated currentUser = (currentUser \<noteq> JNull)"

text \<open>
  \<^verbatim>\<open>new Set(iterable)\<close>: a \<^verbatim>\<open>Set\<close> keeps its elements in insertion order; numbers,
  strings, booleans and null are compared by value, while the arrays and objects of a
  freshly parsed value are each their own element. Null gives the empty set, a string the
  set of its characters, and a number, boolean or object is not iterable (\<open>None\<close>, a
  \<^verbatim>\<open>TypeError\<close>).
\<close>

fun primitive :: "json \<Rightarrow> bool" where
  "primitive (JArr xs) = False"
| "primitive (JObj fs) = False"
| "primitive v = True"

definition set_add :: "json \<Rightarrow> json list \<Rightarrow> json list" where
  "set_add x s = (if primitive x \<and> x \<in> set s then s else s @ [x])"

definition new_Set :: "json \<Rightarrow> json list option" where
  "new_Set v =
     (case v of
        JNull \<Rightarrow> Some []
      | JArr xs \<Rightarrow> Some (fold set_add xs [])
      | JStr s \<Rightarrow> Some (fold set_add (map (\<lambda>ch. JStr [ch]) s) [])
      | _ \<Rightarrow> None)"

text \<open>
  \<^verbatim>\<open>
  loadFavorites() {
      if (!window.authManager?.isAuthenticated()) { this.favorites.clear(); return; }
      const userId = window.authManager.getCurrentUser()?.id;
      const savedFavorites = localStorage.getItem(`favorites_${userId}`);
      if (savedFavorites) {
          try {
              const favoritesArray = JSON.parse(savedFavorites);
              this.favorites = new Set(favoritesArray);
          } catch (error) { this.favorites = new Set(); }
      }
  }
  \<close>
  The state is the pair of \<^verbatim>\<open>this.favorites\<close> and the store.
\<close>

definition favorites_key :: "json \<Rightarrow> string" where
  "favorites_key currentUser = ''favorites_'' @ template (js_get currentUser ''id'')"

definition loadFavorites ::
  "(string \<Rightarrow> json option) \<Rightarrow> json \<Rightarrow> json list \<times> storage \<Rightarrow> json list \<times> storage" where
  "loadFavorites parse currentUser st =
     (case st of (favorites, ls) \<Rightarrow>
        if \<not> isAuthenticated currentUser then ([], ls)
        else (case ls (favorites_key currentUser) of
                None \<Rightarrow> (favorites, ls)
              | Some savedFavorites \<Rightarrow>
                  if savedFavorites = [] then (favorites, ls)
                  else (case parse savedFavorites of
                          None \<Rightarrow> ([], ls)
                        | Some favoritesArray \<Rightarrow>
                            (case new_Set favoritesArray of
                               None \<Rightarrow> ([], ls)
                             | Some fs \<Rightarrow> (fs, ls)))))"

text \<open>
  \<^verbatim>\<open>
  async getFavoriteMovies() {
      if (!window.authManager?.isAuthenticated()) return [];
      const favoriteIds = this.getFavorites();
      if (favoriteIds.length === 0) return [];
      try {
          const favoriteMovies = await Promise.all(
              favoriteIds.map(async (id) => {
                  try { return await window.movieAPI.getMovieDetails(id); }
                  catch (error) { return null; }
              }));
          return favoriteMovies.filter(movie => movie !== null);
      } catch (error) { return []; }
  }
  \<close>
  \<^verbatim>\<open>map\<close> starts every \<^verbatim>\<open>getMovieDetails\<close> call before any of them resumes:
  \<open>start_all\<close> runs the first parts in order at time \<open>t0\<close>, \<open>finish_all\<close> the second
  parts in order at time \<open>t1\<close>, a failed call giving null.
\<close>

fun start_all :: "int \<Rightarrow> json list \<Rightarrow> movie_api \<Rightarrow> (url + json) list \<times> movie_api" where
  "start_all t0 [] api = ([], api)"
| "start_all t0 (i # ids) api =
     (let (r, api1) = getMovieDetails_start t0 i api;
          (rs, api2) = start_all t0 ids api1
      in (r # rs, api2))"

fun finish_all ::
  "(url \<Rightarrow> json option) \<Rightarrow> int \<Rightarrow> (url + json) list \<Rightarrow> movie_api
     \<Rightarrow> json list \<times> movie_api \<times> url list" where
  "finish_all net t1 [] api = ([], api, [])"
| "finish_all net t1 (Inr cached # rs) api =
     (let (ms, api', us) = finish_all net t1 rs api in (cached # ms, api', us))"
| "finish_all net t1 (Inl u # rs) api =
     (let (r, api1) = fetchData_finish t1 u (net u) api;
          (ms, api2, us) = finish_all net t1 rs api1
      in ((case r of Inl e \<Rightarrow> JNull | Inr d \<Rightarrow> d) # ms, api2, u # us))"

definition getFavoriteMovies ::
  "(url \<Rightarrow> json option) \<Rightarrow> int \<Rightarrow> int \<Rightarrow> json \<Rightarrow> json list \<Rightarrow> movie_api
     \<Rightarrow> json list \<times> movie_api \<times> url list" where
  "getFavoriteMovies net t0 t1 currentUser favorites api =
     (if \<not> isAuthenticated currentUser then ([], api, [])
      else if favorites = [] then ([], api, [])
      else (let (rs, api1) = start_all t0 favorites api;
                (ms, api2, us) = finish_all net t1 rs api1
            in (filter (\<lambda>movie. movie \<noteq> JNull) ms, api2, us)))"

section \<open>UIManager: browse state, display and pending work\<close>

text \<open>
  The fields of \<^verbatim>\<open>UIManager\<close>, the parts of the page its handlers write (the movie
  grid, the error panel, the visibility of the load-more button), and what is pending
  outside the handlers: the call that a suspended \<^verbatim>\<open>loadMovies\<close> awaits, and the
  timeouts set by \<^verbatim>\<open>handleSearch\<close>. \<open>issued\<close> and \<open>searches\<close> are traces: the calls
  awaited so far and the arguments of the \<^verbatim>\<open>performSearch\<close> invocations so far. Section
  titles, the active filter button, the spinner and the hero section are written by the
  handlers too and are left out.
\<close>

datatype card = Skeleton | MovieCard json | EmptyState

datatype call = SearchMovies string nat | GetFavoriteMovies | ApiMethod string nat

text \<open>
  A response of the catalogue as the handlers read it: \<^verbatim>\<open>response.results\<close> is an array
  of movie objects or missing (\<open>None\<close>), \<^verbatim>\<open>response.total_pages\<close> a number or missing.
  What an awaited call resolves to is a list of movies for \<^verbatim>\<open>getFavoriteMovies\<close> and a
  response for the methods of \<^verbatim>\<open>MovieAPI\<close>.
\<close>

record response =
  results :: "json list option"
  total_pages :: "int option"

datatype awaited = FavoriteMovies "json list" | ApiResponse response

record timer =
  ident :: nat
  due :: int
  arg :: string

record ui =
  currentPage :: nat
  currentCategory :: string
  currentSearchQuery :: string
  isLoading :: bool
  hasMorePages :: bool
  searchTimeout :: "nat option"
  moviesGrid :: "card list"
  errorMessage :: "string option"
  loadMoreBtn :: bool
  awaiting :: "call option"
  issued :: "call list"
  timers :: "timer list"
  nextTimer :: nat
  searches :: "string list"

text \<open>
  \<^verbatim>\<open>
  setLoadingState(isLoading) {
      this.isLoading = isLoading;
      if (isLoading && this.currentPage === 1) { ...; this.createSkeletonCards(); } else { ... }
  }
  createSkeletonCards(count = 20) { moviesGrid.innerHTML = ''; /* count skeleton cards */ }
  showError(message) { errorMessage.textContent = message; errorContainer.classList.remove('hidden'); }
  hideError() { errorContainer?.classList.add('hidden'); }
  updateLoadMoreButton(show = null) {
      const shouldShow = show !== null ? show : (this.hasMorePages && !this.isLoading);
      ...
  }
  clearMoviesGrid() { moviesGrid.innerHTML = ''; this.updateLoadMoreButton(false); }
  \<close>
\<close>

definition setLoadingState :: "bool \<Rightarrow> ui \<Rightarrow> ui" where
  "setLoadingState b s =
     (if b \<and> currentPage s = 1 then s\<lparr>isLoading := b, moviesGrid := replicate 20 Skeleton\<rparr>
      else s\<lparr>isLoading := b\<rparr>)"

definition showError :: "string \<Rightarrow> ui \<Rightarrow> ui" where
  "showError message s = s\<lparr>errorMessage := Some message\<rparr>"

definition hideError :: "ui \<Rightarrow> ui" where
  "hideError s = s\<lparr>errorMessage := None\<rparr>"

definition updateLoadMoreButton :: "bool option \<Rightarrow> ui \<Rightarrow> ui" where
  "updateLoadMoreButton show s =
     s\<lparr>loadMoreBtn := (case show of Some b \<Rightarrow> b | None \<Rightarrow> hasMorePages s \<and> \<not> isLoading s)\<rparr>"

definition clearMoviesGrid :: "ui \<Rightarrow> ui" where
  "clearMoviesGrid s = updateLoadMoreButton (Some False) (s\<lparr>moviesGrid := []\<rparr>)"

text \<open>
  \<^verbatim>\<open>
  renderMovies(movies, clearGrid = false) {
      if (clearGrid) moviesGrid.innerHTML = '';
      if (movies.length === 0 && clearGrid) { this.showEmptyState(); return; }
      movies.forEach((movie, index) => { ...; moviesGrid.appendChild(movieCard); ... });
      ...
  }
  \<close>
\<close>

definition renderMovies :: "json list \<Rightarrow> bool \<Rightarrow> ui \<Rightarrow> ui" where
  "renderMovies movies clearGrid s =
     (let s1 = (if clearGrid then s\<lparr>moviesGrid := []\<rparr> else s)
      in if movies = [] \<and> clearGrid then s1\<lparr>moviesGrid := [EmptyState]\<rparr>
         else s1\<lparr>moviesGrid := moviesGrid s1 @ map MovieCard movies\<rparr>)"

text \<open>
  \<^verbatim>\<open>
  const apiMethods = { trending: 'getTrendingMovies', popular: 'getPopularMovies',
                       top_rated: 'getTopRatedMovies', upcoming: 'getUpcomingMovies' };
  \<close>
  A category is the \<^verbatim>\<open>data-category\<close> of a filter button, a string; the names that
  every object inherits (\<^verbatim>\<open>constructor\<close>, \<^verbatim>\<open>toString\<close>, ...) are not looked up as
  categories here.
\<close>

definition apiMethods :: "string \<rightharpoonup> string" where
  "apiMethods =
     [''trending'' \<mapsto> ''getTrendingMovies'', ''popular'' \<mapsto> ''getPopularMovies'',
      ''top_rated'' \<mapsto> ''getTopRatedMovies'', ''upcoming'' \<mapsto> ''getUpcomingMovies'']"

text \<open>
  \<^verbatim>\<open>
  async loadMovies() {
      if (this.isLoading) return;
      try {
          this.setLoadingState(true);
          this.hideError();
          let response;
          if (this.currentSearchQuery) {
              response = await window.movieAPI.searchMovies(this.currentSearchQuery, this.currentPage);
          } else if (this.currentCategory === 'favorites') {
              const favoriteMovies = await window.favoritesManager.getFavoriteMovies();
              response = { results: favoriteMovies, total_pages: 1, page: 1 };
          } else {
              const method = apiMethods[this.currentCategory];
              if (method) response = await window.movieAPI[method](this.currentPage);
          }
          if (response && response.results) {
              this.renderMovies(response.results, this.currentPage === 1);
              this.hasMorePages = this.currentPage < response.total_pages;
              this.updateLoadMoreButton();
          } else {
              throw new Error('No results found');
          }
      } catch (error) {
          this.showError(error.message);
      } finally {
          this.setLoadingState(false);
      }
  }
  \<close>
  \<open>loadMovies\<close> is the handler up to its \<^verbatim>\<open>await\<close>: it ends suspended on a call
  (\<open>suspend\<close>), or, when no method matches the category, runs to its end at once.
  \<open>loadMovies_settled\<close> is the rest of the handler, run when the awaited promise settles
  with \<open>Inr\<close> a value or \<open>Inl\<close> the message of the error it rejects with; it reads the
  fields as they are at that moment. With nothing suspended there is nothing to run.
\<close>

definition suspend :: "call \<Rightarrow> ui \<Rightarrow> ui" where
  "suspend c s = s\<lparr>awaiting := Some c, issued := issued s @ [c]\<rparr>"

definition loadMovies :: "ui \<Rightarrow> ui" where
  "loadMovies s =
     (if isLoading s then s
      else (let s1 = hideError (setLoadingState True s)
            in if currentSearchQuery s1 \<noteq> [] then
                 suspend (SearchMovies (currentSearchQuery s1) (currentPage s1)) s1
               else if currentCategory s1 = ''favorites'' then suspend GetFavoriteMovies s1
               else (case apiMethods (currentCategory s1) of
                       Some method \<Rightarrow> suspend (ApiMethod method (currentPage s1)) s1
                     | None \<Rightarrow> setLoadingState False (showError ''No results found'' s1))))"

definition loadMovies_settled :: "string + awaited \<Rightarrow> ui \<Rightarrow> ui" where
  "loadMovies_settled outcome s =
     (case awaiting s of
        None \<Rightarrow> s
      | Some c \<Rightarrow>
          (let s0 = s\<lparr>awaiting := None\<rparr>
           in case outcome of
                Inl message \<Rightarrow> setLoadingState False (showError message s0)
              | Inr v \<Rightarrow>
                  (let response =
                         (case v of
                            FavoriteMovies favoriteMovies \<Rightarrow>
                              \<lparr>results = Some favoriteMovies, total_pages = Some 1\<rparr>
                          | ApiResponse r \<Rightarrow> r)
                   in case results response of
                        Some movies \<Rightarrow>
                          (let s1 = renderMovies movies (currentPage s0 = 1) s0;
                               s2 = s1\<lparr>hasMorePages :=
                                        (case total_pages response of
                                           Some n \<Rightarrow> int (currentPage s1) < n
                                         | None \<Rightarrow> False)\<rparr>
                           in setLoadingState False (updateLoadMoreButton None s2))
                      | None \<Rightarrow> setLoadingState False (showError ''No results found'' s0))))"

text \<open>
  \<^verbatim>\<open>
  async loadMoreMovies() {
      if (this.isLoading || !this.hasMorePages) return;
      this.currentPage++;
      await this.loadMovies();
  }
  switchCategory(category) {
      if (category === this.currentCategory && !this.currentSearchQuery) return;
      ...
      this.currentCategory = category;
      this.currentPage = 1;
      this.currentSearchQuery = '';
      this.hasMorePages = true;
      ...
      this.clearMoviesGrid();
      this.loadMovies();
  }
  performSearch(query) {
      this.currentSearchQuery = query.trim();
      this.currentPage = 1;
      this.hasMorePages = true;
      ...
      this.clearMoviesGrid();
      this.loadMovies();
  }
  \<close>
\<close>

definition loadMoreMovies :: "ui \<Rightarrow> ui" where
  "loadMoreMovies s =
     (if isLoading s \<or> \<not> hasMorePages s then s
      else loadMovies (s\<lparr>currentPage := currentPage s + 1\<rparr>))"

definition switchCategory :: "string \<Rightarrow> ui \<Rightarrow> ui" where
  "switchCategory category s =
     (if category = currentCategory s \<and> currentSearchQuery s = [] then s
      else loadMovies (clearMoviesGrid
             (s\<lparr>currentCategory := category, currentPage := 1,
                currentSearchQuery := [], hasMorePages := True\<rparr>)))"

definition performSearch :: "string \<Rightarrow> ui \<Rightarrow> ui" where
  "performSearch query s =
     loadMovies (clearMoviesGrid
       (s\<lparr>currentSearchQuery := trim query, currentPage := 1, hasMorePages := True,
          searches := searches s @ [query]\<rparr>))"

text \<open>
  \<^verbatim>\<open>
  handleSearch(query) {
      if (this.searchTimeout) clearTimeout(this.searchTimeout);
      this.searchTimeout = setTimeout(() => { this.performSearch(query); }, 300);
  }
  \<close>
  \<^verbatim>\<open>setTimeout\<close> hands out a fresh identifier and adds a pending timeout due 300 ms after
  the present time \<open>now\<close>; \<^verbatim>\<open>clearTimeout\<close> removes the pending timeout of an
  identifier, if there is one. The handle is tested for truthiness, and the number 0 is
  falsy. \<open>timerFires\<close> runs the callback of a pending timeout; \<open>advance\<close> moves the clock
  to \<open>now\<close>, running in order the callbacks that are due by then.
\<close>

definition clearTimeout :: "nat \<Rightarrow> ui \<Rightarrow> ui" where
  "clearTimeout i s = s\<lparr>timers := filter (\<lambda>t. ident t \<noteq> i) (timers s)\<rparr>"

definition handleSearch :: "int \<Rightarrow> string \<Rightarrow> ui \<Rightarrow> ui" where
  "handleSearch now query s =
     (let s1 = (case searchTimeout s of
                  None \<Rightarrow> s
                | Some i \<Rightarrow> if i \<noteq> 0 then clearTimeout i s else s)
      in s1\<lparr>timers := timers s1 @ [\<lparr>ident = nextTimer s1, due = now + 300, arg = query\<rparr>],
            searchTimeout := Some (nextTimer s1),
            nextTimer := nextTimer s1 + 1\<rparr>)"

definition timerFires :: "timer \<Rightarrow> ui \<Rightarrow> ui" where
  "timerFires t s =
     (if t \<in> set (timers s) then performSearch (arg t) (s\<lparr>timers := remove1 t (timers s)\<rparr>)
      else s)"

fun fireDue :: "int \<Rightarrow> timer list \<Rightarrow> ui \<Rightarrow> ui" where
  "fireDue now [] s = s"
| "fireDue now (t # ts) s =
     (if due t \<le> now then fireDue now ts (timerFires t s) else fireDue now ts s)"

definition advance :: "int \<Rightarrow> ui \<Rightarrow> ui" where
  "advance now s = fireDue now (timers s) s"

text \<open>
  A run of input events: each keystroke \<open>(t, text)\<close> is the \<^verbatim>\<open>input\<close> listener calling
  \<^verbatim>\<open>handleSearch(text)\<close> at time \<open>t\<close>, after the timeouts due by then have run.
\<close>

fun keystrokes :: "(int \<times> string) list \<Rightarrow> ui \<Rightarrow> ui" where
  "keystrokes [] s = s"
| "keystrokes ((t, query) # ks) s = keystrokes ks (handleSearch t query (advance t s))"

text \<open>
  Every keystroke of the list comes at or after the one before it and less than 300 ms
  after it; \<open>prev\<close> is the time of the keystroke before the list.
\<close>

fun rapid :: "int \<Rightarrow> (int \<times> string) list \<Rightarrow> bool" where
  "rapid prev [] = True"
| "rapid prev ((t, query) # ks) = (prev \<le> t \<and> t - prev < 300 \<and> rapid t ks)"

text \<open>
  The fields as the constructor sets them, on a page with an empty grid, no error shown,
  and nothing pending:
  \<^verbatim>\<open>
  this.currentPage = 1; this.currentCategory = 'trending'; this.currentSearchQuery = '';
  this.isLoading = false; this.hasMorePages = true; this.searchTimeout = null;
  \<close>
  The constructor then calls \<^verbatim>\<open>initializeUI\<close>, which calls \<^verbatim>\<open>loadMovies\<close>.
\<close>

definition initial_fields :: ui where
  "initial_fields =
     \<lparr>currentPage = 1, currentCategory = ''trending'', currentSearchQuery = [],
      isLoading = False, hasMorePages = True, searchTimeout = None,
      moviesGrid = [], errorMessage = None, loadMoreBtn = False,
      awaiting = None, issued = [], timers = [], nextTimer = 1, searches = []\<rparr>"

definition UIManager_new :: ui where
  "UIManager_new = loadMovies initial_fields"

text \<open>
  A state to run examples from: the page as constructed, once the first page of three of
  the trending movies has arrived.
\<close>

definition first_page :: ui where
  "first_page =
     loadMovies_settled
       (Inr (ApiResponse \<lparr>results = Some [JObj [(''id'', JNum 603)]], total_pages = Some 3\<rparr>))
       UIManager_new"

section \<open>Properties of the response cache\<close>

lemma getCache_absent: "c key = None \<Longrightarrow> getCache now key c = (JNull, c)"
  by (simp add: getCache_def)

lemma getCache_fresh:
  "c key = Some e \<Longrightarrow> now - timestamp e \<le> cacheExpiry \<Longrightarrow> getCache now key c = (data e, c)"
  by (simp add: getCache_def)

lemma getCache_expired:
  "c key = Some e \<Longrightarrow> now - timestamp e > cacheExpiry \<Longrightarrow>
   getCache now key c = (JNull, c(key := None))"
  by (simp add: getCache_def)

text \<open>
  C2. An entry for \<open>k\<close> holding payload \<open>v\<close> stored at time \<open>t\<close>, looked up at time \<open>t'\<close>:
  the lookup returns \<open>v\<close> and keeps the cache as it is when \<open>t' - t \<le> 5 min\<close>; when
  \<open>t' - t > 5 min\<close> it returns null and deletes the entry (and only that entry), and every
  later lookup of \<open>k\<close> on the resulting cache, at any time, returns null again and changes
  nothing. For a payload other than null, the lookup returns \<open>v\<close> exactly when
  \<open>t' - t \<le> 5 min\<close>.
\<close>

theorem getCache_ttl:
  assumes "c k = Some \<lparr>data = v, timestamp = t\<rparr>"
  shows "(t' - t \<le> 5 * 60 * 1000 \<longrightarrow> getCache t' k c = (v, c)) \<and>
         (t' - t > 5 * 60 * 1000 \<longrightarrow>
            getCache t' k c = (JNull, c(k := None)) \<and>
            (\<forall>t''. getCache t'' k (snd (getCache t' k c)) = (JNull, snd (getCache t' k c)))) \<and>
         (v \<noteq> JNull \<longrightarrow> (fst (getCache t' k c) = v \<longleftrightarrow> t' - t \<le> 5 * 60 * 1000))"
proof -
  have fresh: "getCache t' k c = (v, c)" if "t' - t \<le> 5 * 60 * 1000"
    using getCache_fresh [of c k "\<lparr>data = v, timestamp = t\<rparr>" t'] assms that
    by (simp add: cacheExpiry_def)
  have expired: "getCache t' k c = (JNull, c(k := None))" if "t' - t > 5 * 60 * 1000"
    using getCache_expired [of c k "\<lparr>data = v, timestamp = t\<rparr>" t'] assms that
    by (simp add: cacheExpiry_def)
  have again: "getCache t'' k (snd (getCache t' k c)) = (JNull, snd (getCache t' k c))"
    if "t' - t > 5 * 60 * 1000" for t''
    using expired [OF that] by (simp add: getCache_absent)
  have iff: "fst (getCache t' k c) = v \<longleftrightarrow> t' - t \<le> 5 * 60 * 1000" if "v \<noteq> JNull"
  proof (cases "t' - t \<le> 5 * 60 * 1000")
    case True
    then show ?thesis using fresh by simp
  next
    case False
    then have "getCache t' k c = (JNull, c(k := None))" using expired by simp
    with False that show ?thesis by auto
  qed
  from fresh expired again iff show ?thesis by blast
qed

theorem getCache_ttl_witness:
  "getCache 300000 ''q=batman&page=1'' (setCache 0 ''q=batman&page=1'' (JStr ''payload'') Map.empty)
     = (JStr ''payload'', setCache 0 ''q=batman&page=1'' (JStr ''payload'') Map.empty) \<and>
   getCache 300001 ''q=batman&page=1'' (setCache 0 ''q=batman&page=1'' (JStr ''payload'') Map.empty)
     = (JNull, Map.empty)"
proof -
  let ?c = "setCache 0 ''q=batman&page=1'' (JStr ''payload'') (Map.empty :: string cache)"
  have h: "?c ''q=batman&page=1'' = Some \<lparr>data = JStr ''payload'', timestamp = 0\<rparr>"
    by (simp add: setCache_def)
  have e: "?c(''q=batman&page=1'' := None) = Map.empty"
    by (simp add: setCache_def)
  show ?thesis
    using getCache_ttl [of ?c "''q=batman&page=1''" "JStr ''payload''" 0 300000]
      getCache_ttl [of ?c "''q=batman&page=1''" "JStr ''payload''" 0 300001] h e
    by simp
qed

text \<open>
  C3. \<open>setCache\<close> followed by \<open>getCache\<close> for the same key with no time elapsed returns
  the payload just stored and leaves the cache as the store made it, whatever the cache
  held before; the entry after the store is the new payload with the time of the store.
\<close>

theorem setCache_getCache:
  "getCache now k (setCache now k v c) = (v, setCache now k v c) \<and>
   setCache now k v c k = Some \<lparr>data = v, timestamp = now\<rparr>"
  by (simp add: getCache_def setCache_def cacheExpiry_def)

section \<open>Properties of searchMovies\<close>

lemma trim_blank: "list_all is_ws q \<Longrightarrow> trim q = []"
  by (auto simp: trim_def list_all_iff dest: set_dropWhileD)

text \<open>
  C10. For a query that is empty or made of white space only, and for every page number,
  network and state of the API object, \<open>searchMovies\<close> resolves to
  \<^verbatim>\<open>{ results: [], total_pages: 0, page: 1 }\<close>, requests nothing from the network, and
  leaves the API object, and so its cache, as it was, whatever the cache holds: a lookup
  would have deleted an entry found expired, and the result does not depend on the cache.
\<close>

theorem searchMovies_blank:
  "list_all is_ws query \<Longrightarrow>
   searchMovies net t0 t1 query page api =
     (Inr (JObj [(''results'', JArr []), (''total_pages'', JNum 0), (''page'', JNum 1)]), api, [])"
  by (simp add: searchMovies_def trim_blank no_results_def)

theorem searchMovies_blank_witness:
  "list_all is_ws [CHR 0x20, CHR 0x09, CHR 0x0A] \<and>
   searchMovies (\<lambda>u. Some (JStr ''unused'')) 0 1 [CHR 0x20, CHR 0x09, CHR 0x0A] 3
       \<lparr>apiKey = None, cache = Map.empty\<rparr> =
     (Inr (JObj [(''results'', JArr []), (''total_pages'', JNum 0), (''page'', JNum 1)]),
      \<lparr>apiKey = None, cache = Map.empty\<rparr>, [])"
proof -
  have h: "list_all is_ws [CHR 0x20, CHR 0x09, CHR 0x0A]"
    by (simp add: is_ws_def)
  show ?thesis
    using h
      searchMovies_blank [OF h, of "\<lambda>u. Some (JStr ''unused'')" 0 1 3
        "\<lparr>apiKey = None, cache = Map.empty\<rparr>"]
    by simp
qed

section \<open>Properties of the loaders of persisted state\<close>

text \<open>
  A saved session that does not parse: the constructor of \<open>AuthManager\<close> removes the
  record from the store and leaves nobody signed in.
\<close>

lemma AuthManager_new_corrupt:
  "ls ''cinescope_user'' = Some blob \<Longrightarrow> blob \<noteq> [] \<Longrightarrow> parse blob = None \<Longrightarrow>
   AuthManager_new parse ls = (JNull, ls(''cinescope_user'' := None))"
  by (simp add: AuthManager_new_def initializeAuth_def)

text \<open>
  C9. For a signed-in user whose saved favourites do not parse, \<open>loadFavorites\<close> resets
  the favourites to the empty set and leaves the store as it was: the record that does
  not parse is still there afterwards. (The claim has the loader discard it, as the
  loader of the session does.)
\<close>

theorem loadFavorites_corrupt:
  assumes "isAuthenticated currentUser"
    and "ls (favorites_key currentUser) = Some blob"
    and "blob \<noteq> []"
    and "parse blob = None"
  shows "loadFavorites parse currentUser (favorites, ls) = ([], ls) \<and>
         snd (loadFavorites parse currentUser (favorites, ls)) (favorites_key currentUser)
           = Some blob"
  using assms by (simp add: loadFavorites_def)

lemma favorites_key_7: "favorites_key (JObj [(''id'', JNum 7)]) = ''favorites_7''"
  by (simp add: favorites_key_def template_def js_get_def digits.simps)

theorem loadFavorites_corrupt_witness:
  "loadFavorites (\<lambda>s. if s = ''[603]'' then Some (JArr [JNum 603]) else None)
     (JObj [(''id'', JNum 7)]) ([JNum 603], [''favorites_7'' \<mapsto> ''[603'']) =
     ([], [''favorites_7'' \<mapsto> ''[603''])"
proof -
  let ?parse = "\<lambda>s. if s = ''[603]'' then Some (JArr [JNum 603]) else None"
  let ?user = "JObj [(''id'', JNum 7)]"
  let ?ls = "[''favorites_7'' \<mapsto> ''[603'']"
  have a: "isAuthenticated ?user" by (simp add: isAuthenticated_def)
  have b: "?ls (favorites_key ?user) = Some ''[603''" by (simp add: favorites_key_7)
  have c: "''[603'' \<noteq> []" by simp
  have d: "?parse ''[603'' = None" by simp
  show ?thesis
    using loadFavorites_corrupt [of ?user ?ls "''[603''" ?parse "[JNum 603]"] a b c d by simp
qed

section \<open>Properties of getFavoriteMovies\<close>

text \<open>
  What \<open>getFavoriteMovies\<close> does for a whole list of favourites. The first parts of the
  calls look every favourite up in the cache as it was at the start: a lookup only ever
  deletes an entry that is expired, which no later lookup at that time would have
  returned. The second parts store every answer of the network.
\<close>

lemma details_url_cache: "details_url (api\<lparr>cache := c\<rparr>) i = details_url api i"
  by (simp add: details_url_def buildURL_def)

lemma getMovieDetails_start_eq:
  "getMovieDetails_start t0 i api =
     (if truthy (fst (getCache t0 (details_url api i) (cache api)))
      then Inr (fst (getCache t0 (details_url api i) (cache api)))
      else Inl (details_url api i),
      api\<lparr>cache := snd (getCache t0 (details_url api i) (cache api))\<rparr>)"
  by (simp add: getMovieDetails_start_def fetchData_start_def details_url_def Let_def
      split: prod.split)

lemma getCache_after_getCache:
  "fst (getCache t0 u (snd (getCache t0 u' c))) = fst (getCache t0 u c)"
  by (simp add: getCache_def split: option.split)

lemma start_all_eq:
  "start_all t0 ids api =
     (map (\<lambda>i. if truthy (fst (getCache t0 (details_url api i) (cache api)))
               then Inr (fst (getCache t0 (details_url api i) (cache api)))
               else Inl (details_url api i)) ids,
      api\<lparr>cache := fold (\<lambda>i c. snd (getCache t0 (details_url api i) c)) ids (cache api)\<rparr>)"
proof (induction ids arbitrary: api)
  case Nil
  show ?case by simp
next
  case (Cons i ids)
  show ?case
    by (simp add: getMovieDetails_start_eq Cons.IH details_url_cache getCache_after_getCache)
qed

lemma finish_all_eq:
  "finish_all net t1 rs api =
     (map (\<lambda>r. case r of Inl u \<Rightarrow> (case net u of None \<Rightarrow> JNull | Some d \<Rightarrow> d) | Inr d \<Rightarrow> d) rs,
      api\<lparr>cache := fold (\<lambda>r c. case r of
                                 Inl u \<Rightarrow> (case net u of None \<Rightarrow> c | Some d \<Rightarrow> setCache t1 u d c)
                               | Inr d \<Rightarrow> c) rs (cache api)\<rparr>,
      concat (map (\<lambda>r. case r of Inl u \<Rightarrow> [u] | Inr d \<Rightarrow> []) rs))"
proof (induction rs arbitrary: api)
  case Nil
  show ?case by simp
next
  case (Cons r rs)
  show ?case
    by (cases r) (simp_all add: Cons.IH fetchData_finish_def split: option.split)
qed

lemma finish_cache_lookup:
  "fold (\<lambda>r c. case r of
                 Inl u \<Rightarrow> (case net u of None \<Rightarrow> c | Some d \<Rightarrow> setCache t1 u d c)
               | Inr d \<Rightarrow> c) rs c0 u =
     (if Inl u \<in> set rs \<and> net u \<noteq> None
      then Some \<lparr>data = the (net u), timestamp = t1\<rparr> else c0 u)"
proof (induction rs arbitrary: c0)
  case Nil
  show ?case by simp
next
  case (Cons r rs)
  show ?case
    by (cases r) (auto simp: Cons.IH setCache_def split: option.split)
qed


lemma getFavoriteMovies_eq:
  assumes "isAuthenticated currentUser"
  shows "getFavoriteMovies net t0 t1 currentUser ids api =
     (filter (\<lambda>movie. movie \<noteq> JNull)
        (map (\<lambda>i. if truthy (fst (getCache t0 (details_url api i) (cache api)))
                  then fst (getCache t0 (details_url api i) (cache api))
                  else (case net (details_url api i) of None \<Rightarrow> JNull | Some d \<Rightarrow> d)) ids),
      api\<lparr>cache :=
        fold (\<lambda>r c. case r of
                 Inl u \<Rightarrow> (case net u of None \<Rightarrow> c | Some d \<Rightarrow> setCache t1 u d c)
               | Inr d \<Rightarrow> c)
          (map (\<lambda>i. if truthy (fst (getCache t0 (details_url api i) (cache api)))
               then Inr (fst (getCache t0 (details_url api i) (cache api)))
               else Inl (details_url api i)) ids)
          (fold (\<lambda>i c. snd (getCache t0 (details_url api i) c)) ids (cache api))\<rparr>,
      map (details_url api)
        (filter (\<lambda>i. \<not> truthy (fst (getCache t0 (details_url api i) (cache api)))) ids))"
proof (cases "ids = []")
  case True
  then show ?thesis by (simp add: getFavoriteMovies_def)
next
  case False
  have m: "map (\<lambda>r. case r of Inl u \<Rightarrow> (case net u of None \<Rightarrow> JNull | Some d \<Rightarrow> d) | Inr d \<Rightarrow> d)
        (map (\<lambda>i. if truthy (fst (getCache t0 (details_url api i) (cache api)))
               then Inr (fst (getCache t0 (details_url api i) (cache api)))
               else Inl (details_url api i)) xs) =
      map (\<lambda>i. if truthy (fst (getCache t0 (details_url api i) (cache api)))
                  then fst (getCache t0 (details_url api i) (cache api))
                  else (case net (details_url api i) of None \<Rightarrow> JNull | Some d \<Rightarrow> d)) xs" for xs
    by (induction xs) simp_all
  have r: "concat (map (\<lambda>r. case r of Inl u \<Rightarrow> [u] | Inr d \<Rightarrow> [])
        (map (\<lambda>i. if truthy (fst (getCache t0 (details_url api i) (cache api)))
               then Inr (fst (getCache t0 (details_url api i) (cache api)))
               else Inl (details_url api i)) xs)) =
      map (details_url api)
        (filter (\<lambda>i. \<not> truthy (fst (getCache t0 (details_url api i) (cache api)))) xs)" for xs
    by (induction xs) simp_all
  from False assms show ?thesis
    by (simp add: getFavoriteMovies_def start_all_eq finish_all_eq m r del: map_map)
qed

lemma favourite_stored:
  assumes "isAuthenticated currentUser" and "i \<in> set ids"
    and "\<not> truthy (fst (getCache t0 (details_url api i) (cache api)))"
    and "net (details_url api i) = Some d"
  shows "cache (fst (snd (getFavoriteMovies net t0 t1 currentUser ids api))) (details_url api i) =
           Some \<lparr>data = d, timestamp = t1\<rparr>"
proof -
  have "Inl (details_url api i) \<in>
      set (map (\<lambda>i. if truthy (fst (getCache t0 (details_url api i) (cache api)))
               then Inr (fst (getCache t0 (details_url api i) (cache api)))
               else Inl (details_url api i)) ids)"
    using assms(2,3) by force
  then show ?thesis
    using assms(4) by (simp add: getFavoriteMovies_eq [OF assms(1)] finish_cache_lookup)
qed

lemma favourites_network_down:
  assumes "cache api = Map.empty"
  shows "fst (getFavoriteMovies (\<lambda>u. None) t0 t1 currentUser ids api) = []"
proof (cases "isAuthenticated currentUser")
  case True
  show ?thesis
    by (simp add: getFavoriteMovies_eq [OF True] assms getCache_def)
next
  case False
  then show ?thesis by (simp add: getFavoriteMovies_def)
qed


section \<open>Properties of the browse state\<close>

text \<open>The part of \<open>loadMovies\<close> before its \<^verbatim>\<open>await\<close> writes none of these fields.\<close>

lemma loadMovies_frame:
  "currentPage (loadMovies s) = currentPage s \<and>
   currentCategory (loadMovies s) = currentCategory s \<and>
   currentSearchQuery (loadMovies s) = currentSearchQuery s \<and>
   hasMorePages (loadMovies s) = hasMorePages s \<and>
   searchTimeout (loadMovies s) = searchTimeout s \<and>
   timers (loadMovies s) = timers s \<and>
   nextTimer (loadMovies s) = nextTimer s \<and>
   searches (loadMovies s) = searches s"
  by (simp add: loadMovies_def Let_def suspend_def hideError_def setLoadingState_def showError_def
      split: option.split)

text \<open>
  C4. From every state, \<open>switchCategory category\<close>, when the category differs from the
  current one or a search is active, leaves the category \<open>category\<close>, the search query
  empty, the page 1 and \<open>hasMorePages\<close> true; \<open>performSearch query\<close> leaves the page 1
  and \<open>hasMorePages\<close> true, with the trimmed query as the search query and the category
  kept. From \<^verbatim>\<open>{category: trending, page: 1}\<close>, switching to \<^verbatim>\<open>popular\<close> gives
  \<^verbatim>\<open>{category: popular, page: 1, hasMorePages: true, searchQuery: ""}\<close>.
\<close>

theorem reset_events:
  "(\<not> (category = currentCategory s \<and> currentSearchQuery s = []) \<longrightarrow>
      currentCategory (switchCategory category s) = category \<and>
      currentSearchQuery (switchCategory category s) = [] \<and>
      currentPage (switchCategory category s) = 1 \<and>
      hasMorePages (switchCategory category s)) \<and>
   currentSearchQuery (performSearch query s) = trim query \<and>
   currentPage (performSearch query s) = 1 \<and>
   hasMorePages (performSearch query s) \<and>
   currentCategory (performSearch query s) = currentCategory s"
  by (simp add: switchCategory_def performSearch_def loadMovies_frame clearMoviesGrid_def
      updateLoadMoreButton_def)

theorem reset_events_witness:
  "currentCategory initial_fields = ''trending'' \<and> currentPage initial_fields = 1 \<and>
   currentCategory (switchCategory ''popular'' initial_fields) = ''popular'' \<and>
   currentPage (switchCategory ''popular'' initial_fields) = 1 \<and>
   hasMorePages (switchCategory ''popular'' initial_fields) \<and>
   currentSearchQuery (switchCategory ''popular'' initial_fields) = []"
  using reset_events [of "''popular''" initial_fields] by (simp add: initial_fields_def)

text \<open>What each helper leaves in each field.\<close>

lemma setLoadingState_fields:
  "isLoading (setLoadingState b s) = b"
  "currentPage (setLoadingState b s) = currentPage s"
  "currentCategory (setLoadingState b s) = currentCategory s"
  "currentSearchQuery (setLoadingState b s) = currentSearchQuery s"
  "hasMorePages (setLoadingState b s) = hasMorePages s"
  "errorMessage (setLoadingState b s) = errorMessage s"
  "awaiting (setLoadingState b s) = awaiting s"
  "issued (setLoadingState b s) = issued s"
  "moviesGrid (setLoadingState b s) =
     (if b \<and> currentPage s = 1 then replicate 20 Skeleton else moviesGrid s)"
  by (simp_all add: setLoadingState_def)

lemma hideError_fields:
  "isLoading (hideError s) = isLoading s"
  "currentPage (hideError s) = currentPage s"
  "currentCategory (hideError s) = currentCategory s"
  "currentSearchQuery (hideError s) = currentSearchQuery s"
  "hasMorePages (hideError s) = hasMorePages s"
  "errorMessage (hideError s) = None"
  "awaiting (hideError s) = awaiting s"
  "issued (hideError s) = issued s"
  "moviesGrid (hideError s) = moviesGrid s"
  by (simp_all add: hideError_def)

lemma showError_fields:
  "isLoading (showError m s) = isLoading s"
  "currentPage (showError m s) = currentPage s"
  "currentCategory (showError m s) = currentCategory s"
  "currentSearchQuery (showError m s) = currentSearchQuery s"
  "hasMorePages (showError m s) = hasMorePages s"
  "errorMessage (showError m s) = Some m"
  "awaiting (showError m s) = awaiting s"
  "issued (showError m s) = issued s"
  "moviesGrid (showError m s) = moviesGrid s"
  by (simp_all add: showError_def)

lemma suspend_fields:
  "isLoading (suspend c s) = isLoading s"
  "currentPage (suspend c s) = currentPage s"
  "currentCategory (suspend c s) = currentCategory s"
  "currentSearchQuery (suspend c s) = currentSearchQuery s"
  "hasMorePages (suspend c s) = hasMorePages s"
  "errorMessage (suspend c s) = errorMessage s"
  "awaiting (suspend c s) = Some c"
  "issued (suspend c s) = issued s @ [c]"
  "moviesGrid (suspend c s) = moviesGrid s"
  by (simp_all add: suspend_def)

lemma clearMoviesGrid_fields:
  "isLoading (clearMoviesGrid s) = isLoading s"
  "currentPage (clearMoviesGrid s) = currentPage s"
  "currentCategory (clearMoviesGrid s) = currentCategory s"
  "currentSearchQuery (clearMoviesGrid s) = currentSearchQuery s"
  "hasMorePages (clearMoviesGrid s) = hasMorePages s"
  "errorMessage (clearMoviesGrid s) = errorMessage s"
  "awaiting (clearMoviesGrid s) = awaiting s"
  "issued (clearMoviesGrid s) = issued s"
  "moviesGrid (clearMoviesGrid s) = []"
  by (simp_all add: clearMoviesGrid_def updateLoadMoreButton_def)

lemmas ui_fields =
  setLoadingState_fields hideError_fields showError_fields suspend_fields clearMoviesGrid_fields

lemma loadMovies_loading: "isLoading s \<Longrightarrow> loadMovies s = s"
  by (simp add: loadMovies_def)

lemma loadMovies_idle:
  "\<not> isLoading s \<Longrightarrow>
   loadMovies s =
     (if currentSearchQuery s \<noteq> [] then
        suspend (SearchMovies (currentSearchQuery s) (currentPage s))
          (hideError (setLoadingState True s))
      else if currentCategory s = ''favorites'' then
        suspend GetFavoriteMovies (hideError (setLoadingState True s))
      else (case apiMethods (currentCategory s) of
              Some method \<Rightarrow>
                suspend (ApiMethod method (currentPage s)) (hideError (setLoadingState True s))
            | None \<Rightarrow>
                setLoadingState False
                  (showError ''No results found'' (hideError (setLoadingState True s)))))"
  by (simp add: loadMovies_def Let_def ui_fields split: option.split)

lemma loadMovies_issues:
  assumes "\<not> isLoading s"
    and "currentSearchQuery s \<noteq> [] \<or> currentCategory s = ''favorites'' \<or>
         apiMethods (currentCategory s) \<noteq> None"
  shows "\<exists>c. loadMovies s = suspend c (hideError (setLoadingState True s))"
  using assms by (auto simp: loadMovies_idle)

lemma settled_success_grid:
  "awaiting s = Some c \<Longrightarrow>
   moviesGrid (loadMovies_settled (Inr (ApiResponse \<lparr>results = Some movies, total_pages = tp\<rparr>)) s) =
     (if currentPage s = 1 then (if movies = [] then [EmptyState] else map MovieCard movies)
      else moviesGrid s @ map MovieCard movies)"
  by (simp add: loadMovies_settled_def Let_def renderMovies_def setLoadingState_def
      updateLoadMoreButton_def)


text \<open>
  C5. When \<open>isLoading\<close> is true or \<open>hasMorePages\<close> is false, \<open>loadMoreMovies\<close> returns the
  state it was given, with every field, the display and the pending call unchanged and
  nothing added to the calls issued. Otherwise the page grows by exactly one, with
  category, search query and \<open>hasMorePages\<close> kept; and when a search is active or the
  category is \<^verbatim>\<open>favorites\<close> or has a method in \<open>apiMethods\<close>, the handler is left loading
  and suspended on one new call, and (the page being at least 1 before) the grid is
  untouched until the call resolves, when the movies of a successful response are
  appended to it.
\<close>

theorem loadMoreMovies_guard:
  "(isLoading s \<or> \<not> hasMorePages s \<longrightarrow> loadMoreMovies s = s) \<and>
   (\<not> isLoading s \<and> hasMorePages s \<longrightarrow>
      currentPage (loadMoreMovies s) = currentPage s + 1 \<and>
      currentCategory (loadMoreMovies s) = currentCategory s \<and>
      currentSearchQuery (loadMoreMovies s) = currentSearchQuery s \<and>
      hasMorePages (loadMoreMovies s) = hasMorePages s \<and>
      (currentSearchQuery s \<noteq> [] \<or> currentCategory s = ''favorites'' \<or>
       apiMethods (currentCategory s) \<noteq> None \<longrightarrow>
         isLoading (loadMoreMovies s) \<and>
         (\<exists>c. awaiting (loadMoreMovies s) = Some c \<and>
              issued (loadMoreMovies s) = issued s @ [c]) \<and>
         (1 \<le> currentPage s \<longrightarrow>
            moviesGrid (loadMoreMovies s) = moviesGrid s \<and>
            (\<forall>movies tp.
               moviesGrid (loadMovies_settled
                   (Inr (ApiResponse \<lparr>results = Some movies, total_pages = tp\<rparr>))
                   (loadMoreMovies s)) = moviesGrid s @ map MovieCard movies))))"
proof -
  let ?s = "s\<lparr>currentPage := currentPage s + 1\<rparr>"
  have noop: "loadMoreMovies s = s" if "isLoading s \<or> \<not> hasMorePages s"
    using that by (auto simp: loadMoreMovies_def)
  have eq: "loadMoreMovies s = loadMovies ?s" if "\<not> isLoading s \<and> hasMorePages s"
    using that by (simp add: loadMoreMovies_def)
  have frame: "currentPage (loadMoreMovies s) = currentPage s + 1 \<and>
      currentCategory (loadMoreMovies s) = currentCategory s \<and>
      currentSearchQuery (loadMoreMovies s) = currentSearchQuery s \<and>
      hasMorePages (loadMoreMovies s) = hasMorePages s"
    if "\<not> isLoading s \<and> hasMorePages s"
    using eq [OF that] by (simp add: loadMovies_frame)
  have fetch: "isLoading (loadMoreMovies s) \<and>
         (\<exists>c. awaiting (loadMoreMovies s) = Some c \<and>
              issued (loadMoreMovies s) = issued s @ [c]) \<and>
         (1 \<le> currentPage s \<longrightarrow>
            moviesGrid (loadMoreMovies s) = moviesGrid s \<and>
            (\<forall>movies tp.
               moviesGrid (loadMovies_settled
                   (Inr (ApiResponse \<lparr>results = Some movies, total_pages = tp\<rparr>))
                   (loadMoreMovies s)) = moviesGrid s @ map MovieCard movies))"
    if a: "\<not> isLoading s \<and> hasMorePages s"
      and b: "currentSearchQuery s \<noteq> [] \<or> currentCategory s = ''favorites'' \<or>
       apiMethods (currentCategory s) \<noteq> None"
  proof -
    have "\<not> isLoading ?s" using a by simp
    moreover have "currentSearchQuery ?s \<noteq> [] \<or> currentCategory ?s = ''favorites'' \<or>
       apiMethods (currentCategory ?s) \<noteq> None"
      using b by simp
    ultimately obtain c where c: "loadMovies ?s = suspend c (hideError (setLoadingState True ?s))"
      using loadMovies_issues [of ?s] by blast
    have l: "loadMoreMovies s = suspend c (hideError (setLoadingState True ?s))"
      using eq [OF a] c by simp
    have 1: "isLoading (loadMoreMovies s)"
      by (simp add: l ui_fields)
    have 2: "awaiting (loadMoreMovies s) = Some c \<and> issued (loadMoreMovies s) = issued s @ [c]"
      by (simp add: l ui_fields)
    have 3: "moviesGrid (loadMoreMovies s) = moviesGrid s" if "1 \<le> currentPage s"
      using that by (simp add: l ui_fields)
    have 4: "moviesGrid (loadMovies_settled
                   (Inr (ApiResponse \<lparr>results = Some movies, total_pages = tp\<rparr>))
                   (loadMoreMovies s)) = moviesGrid s @ map MovieCard movies"
      if "1 \<le> currentPage s" for movies tp
    proof -
      have "awaiting (loadMoreMovies s) = Some c" using 2 by simp
      from settled_success_grid [OF this, of movies tp] that 3 [OF that] frame [OF a]
      show ?thesis by simp
    qed
    show ?thesis
    proof (intro conjI impI allI)
      show "isLoading (loadMoreMovies s)" by (rule 1)
      show "\<exists>c. awaiting (loadMoreMovies s) = Some c \<and> issued (loadMoreMovies s) = issued s @ [c]"
        using 2 by (intro exI)
      show "moviesGrid (loadMoreMovies s) = moviesGrid s" if "1 \<le> currentPage s"
        using 3 [OF that] .
      show "moviesGrid (loadMovies_settled
                   (Inr (ApiResponse \<lparr>results = Some movies, total_pages = tp\<rparr>))
                   (loadMoreMovies s)) = moviesGrid s @ map MovieCard movies"
        if "1 \<le> currentPage s" for movies tp
        using 4 [OF that] .
    qed
  qed
  from noop frame fetch show ?thesis by blast
qed


lemma first_page_eq:
  "first_page = \<lparr>currentPage = 1, currentCategory = ''trending'', currentSearchQuery = [],
      isLoading = False, hasMorePages = True, searchTimeout = None,
      moviesGrid = [MovieCard (JObj [(''id'', JNum 603)])], errorMessage = None, loadMoreBtn = False,
      awaiting = None, issued = [ApiMethod ''getTrendingMovies'' 1], timers = [], nextTimer = 1,
      searches = []\<rparr>"
  by (simp add: first_page_def UIManager_new_def initial_fields_def loadMovies_def Let_def
      hideError_def setLoadingState_def suspend_def apiMethods_def loadMovies_settled_def
      renderMovies_def updateLoadMoreButton_def)

lemma UIManager_new_eq:
  "UIManager_new = \<lparr>currentPage = 1, currentCategory = ''trending'', currentSearchQuery = [],
      isLoading = True, hasMorePages = True, searchTimeout = None,
      moviesGrid = replicate 20 Skeleton, errorMessage = None, loadMoreBtn = False,
      awaiting = Some (ApiMethod ''getTrendingMovies'' 1),
      issued = [ApiMethod ''getTrendingMovies'' 1], timers = [], nextTimer = 1, searches = []\<rparr>"
  by (simp add: UIManager_new_def initial_fields_def loadMovies_def Let_def
      hideError_def setLoadingState_def suspend_def apiMethods_def)

theorem loadMoreMovies_guard_witness:
  "loadMoreMovies (first_page\<lparr>hasMorePages := False\<rparr>) = first_page\<lparr>hasMorePages := False\<rparr> \<and>
   currentPage first_page = 1 \<and>
   currentPage (loadMoreMovies first_page) = 2 \<and>
   isLoading (loadMoreMovies first_page) \<and>
   moviesGrid
     (loadMovies_settled (Inr (ApiResponse \<lparr>results = Some [JStr ''next''], total_pages = Some 3\<rparr>))
        (loadMoreMovies first_page)) =
     [MovieCard (JObj [(''id'', JNum 603)]), MovieCard (JStr ''next'')]"
  using loadMoreMovies_guard [of "first_page\<lparr>hasMorePages := False\<rparr>"]
    loadMoreMovies_guard [of first_page]
  by (simp add: first_page_eq apiMethods_def)

lemma settled_failure:
  "awaiting s = Some c \<Longrightarrow>
   loadMovies_settled (Inl message) s = setLoadingState False (showError message (s\<lparr>awaiting := None\<rparr>))"
  by (simp add: loadMovies_settled_def Let_def)

lemma settled_failure_fields:
  assumes "awaiting s = Some c"
  shows "errorMessage (loadMovies_settled (Inl message) s) = Some message"
    and "isLoading (loadMovies_settled (Inl message) s) = False"
    and "awaiting (loadMovies_settled (Inl message) s) = None"
    and "currentPage (loadMovies_settled (Inl message) s) = currentPage s"
    and "hasMorePages (loadMovies_settled (Inl message) s) = hasMorePages s"
    and "currentCategory (loadMovies_settled (Inl message) s) = currentCategory s"
    and "currentSearchQuery (loadMovies_settled (Inl message) s) = currentSearchQuery s"
  by (simp_all add: settled_failure [OF assms] ui_fields)

lemma awaiting_loadMovies_idle:
  "\<not> isLoading s \<Longrightarrow>
   awaiting (loadMovies s) =
     (if currentSearchQuery s \<noteq> [] then Some (SearchMovies (currentSearchQuery s) (currentPage s))
      else if currentCategory s = ''favorites'' then Some GetFavoriteMovies
      else (case apiMethods (currentCategory s) of
              Some method \<Rightarrow> Some (ApiMethod method (currentPage s))
            | None \<Rightarrow> awaiting s))"
  by (simp add: loadMovies_idle ui_fields split: option.split)

lemma retry_same_call:
  assumes "\<not> isLoading s"
    and "currentSearchQuery s \<noteq> [] \<or> currentCategory s = ''favorites'' \<or>
         apiMethods (currentCategory s) \<noteq> None"
  shows "awaiting (loadMovies (loadMovies_settled (Inl message) (loadMovies s))) =
           awaiting (loadMovies s) \<and>
         awaiting (loadMovies s) \<noteq> None \<and>
         currentPage (loadMovies_settled (Inl message) (loadMovies s)) = currentPage s \<and>
         hasMorePages (loadMovies_settled (Inl message) (loadMovies s)) = hasMorePages s"
proof -
  obtain c where c: "loadMovies s = suspend c (hideError (setLoadingState True s))"
    using loadMovies_issues [OF assms] by blast
  have a: "awaiting (loadMovies s) = Some c" by (simp add: c ui_fields)
  define f where "f = loadMovies_settled (Inl message) (loadMovies s)"
  have f: "\<not> isLoading f" "currentPage f = currentPage s" "hasMorePages f = hasMorePages s"
    "currentCategory f = currentCategory s" "currentSearchQuery f = currentSearchQuery s"
    unfolding f_def using settled_failure_fields [OF a, of message]
    by (simp_all add: loadMovies_frame)
  have A: "awaiting (loadMovies f) =
     (if currentSearchQuery s \<noteq> [] then Some (SearchMovies (currentSearchQuery s) (currentPage s))
      else if currentCategory s = ''favorites'' then Some GetFavoriteMovies
      else (case apiMethods (currentCategory s) of
              Some method \<Rightarrow> Some (ApiMethod method (currentPage s))
            | None \<Rightarrow> awaiting f))"
    using awaiting_loadMovies_idle [OF f(1)] by (simp only: f)
  have B: "awaiting (loadMovies s) =
     (if currentSearchQuery s \<noteq> [] then Some (SearchMovies (currentSearchQuery s) (currentPage s))
      else if currentCategory s = ''favorites'' then Some GetFavoriteMovies
      else (case apiMethods (currentCategory s) of
              Some method \<Rightarrow> Some (ApiMethod method (currentPage s))
            | None \<Rightarrow> awaiting s))"
    by (rule awaiting_loadMovies_idle [OF assms(1)])
  have "awaiting (loadMovies f) = awaiting (loadMovies s)"
    unfolding A B using assms(2) by (auto split: option.split)
  with a f show ?thesis unfolding f_def by simp
qed

lemma retry_derives:
  assumes "awaiting s = Some c"
  shows "awaiting (loadMovies (loadMovies_settled (Inl message) s)) =
     (if currentSearchQuery s \<noteq> [] then Some (SearchMovies (currentSearchQuery s) (currentPage s))
      else if currentCategory s = ''favorites'' then Some GetFavoriteMovies
      else (case apiMethods (currentCategory s) of
              Some method \<Rightarrow> Some (ApiMethod method (currentPage s))
            | None \<Rightarrow> None))"
proof -
  define f where "f = loadMovies_settled (Inl message) s"
  have f: "\<not> isLoading f" "currentPage f = currentPage s"
    "currentCategory f = currentCategory s" "currentSearchQuery f = currentSearchQuery s"
    "awaiting f = None"
    unfolding f_def using settled_failure_fields [OF assms, of message] by simp_all
  show ?thesis
    unfolding f_def [symmetric] using awaiting_loadMovies_idle [OF f(1)] by (simp only: f)
qed

lemma settled_no_favourites:
  assumes "awaiting s = Some c" and "1 \<le> currentPage s"
  shows "errorMessage (loadMovies_settled (Inr (FavoriteMovies [])) s) = errorMessage s \<and>
         \<not> hasMorePages (loadMovies_settled (Inr (FavoriteMovies [])) s) \<and>
         \<not> isLoading (loadMovies_settled (Inr (FavoriteMovies [])) s) \<and>
         moviesGrid (loadMovies_settled (Inr (FavoriteMovies [])) s) =
           (if currentPage s = 1 then [EmptyState] else moviesGrid s)"
  using assms
  by (simp add: loadMovies_settled_def Let_def renderMovies_def setLoadingState_def
      updateLoadMoreButton_def)

text \<open>
  C6, as amended. When a call to a method of \<open>MovieAPI\<close> (a search or the page of a
  category) is awaited and fails, the message is shown in the error panel, \<open>isLoading\<close>
  is cleared, and page, \<open>hasMorePages\<close>, category and search query are what they were when
  the failure arrived. A retry (\<open>loadMovies\<close> again) from there awaits the call derived
  from those fields: the failed call again when \<open>loadMovies\<close> or \<open>loadMoreMovies\<close> issued
  it and nothing reset the state meanwhile. After a failed \<open>loadMoreMovies\<close> the page is
  the incremented one, one more than when the user asked for more, and the retry asks for
  that page again. Loading the favourites never fails: \<open>getFavoriteMovies\<close> drops the
  movies whose details cannot be fetched, so with nothing cached and the network down it
  resolves to no movies, and then no error is shown, \<open>hasMorePages\<close> is false, loading
  ends, and on page 1 the grid shows the empty-state card.
\<close>

theorem fetch_failure:
  "(awaiting s = Some c \<and> c \<noteq> GetFavoriteMovies \<longrightarrow>
      errorMessage (loadMovies_settled (Inl message) s) = Some message \<and>
      \<not> isLoading (loadMovies_settled (Inl message) s) \<and>
      currentPage (loadMovies_settled (Inl message) s) = currentPage s \<and>
      hasMorePages (loadMovies_settled (Inl message) s) = hasMorePages s \<and>
      currentCategory (loadMovies_settled (Inl message) s) = currentCategory s \<and>
      currentSearchQuery (loadMovies_settled (Inl message) s) = currentSearchQuery s \<and>
      awaiting (loadMovies (loadMovies_settled (Inl message) s)) =
        (if currentSearchQuery s \<noteq> [] then
           Some (SearchMovies (currentSearchQuery s) (currentPage s))
         else if currentCategory s = ''favorites'' then Some GetFavoriteMovies
         else (case apiMethods (currentCategory s) of
                 Some method \<Rightarrow> Some (ApiMethod method (currentPage s))
               | None \<Rightarrow> None))) \<and>
   (\<not> isLoading s \<and>
    (currentSearchQuery s \<noteq> [] \<or> apiMethods (currentCategory s) \<noteq> None) \<longrightarrow>
      awaiting (loadMovies (loadMovies_settled (Inl message) (loadMovies s))) =
        awaiting (loadMovies s) \<and>
      (hasMorePages s \<longrightarrow>
         currentPage (loadMovies_settled (Inl message) (loadMoreMovies s)) = currentPage s + 1 \<and>
         awaiting (loadMovies (loadMovies_settled (Inl message) (loadMoreMovies s))) =
           awaiting (loadMoreMovies s))) \<and>
   (cache api = Map.empty \<longrightarrow>
      fst (getFavoriteMovies (\<lambda>u. None) t0 t1 currentUser ids api) = []) \<and>
   (awaiting s = Some GetFavoriteMovies \<and> 1 \<le> currentPage s \<longrightarrow>
      errorMessage (loadMovies_settled (Inr (FavoriteMovies [])) s) = errorMessage s \<and>
      \<not> hasMorePages (loadMovies_settled (Inr (FavoriteMovies [])) s) \<and>
      \<not> isLoading (loadMovies_settled (Inr (FavoriteMovies [])) s) \<and>
      moviesGrid (loadMovies_settled (Inr (FavoriteMovies [])) s) =
        (if currentPage s = 1 then [EmptyState] else moviesGrid s))"
proof -
  let ?s = "s\<lparr>currentPage := currentPage s + 1\<rparr>"
  have 1: "errorMessage (loadMovies_settled (Inl message) s) = Some message \<and>
      \<not> isLoading (loadMovies_settled (Inl message) s) \<and>
      currentPage (loadMovies_settled (Inl message) s) = currentPage s \<and>
      hasMorePages (loadMovies_settled (Inl message) s) = hasMorePages s \<and>
      currentCategory (loadMovies_settled (Inl message) s) = currentCategory s \<and>
      currentSearchQuery (loadMovies_settled (Inl message) s) = currentSearchQuery s \<and>
      awaiting (loadMovies (loadMovies_settled (Inl message) s)) =
        (if currentSearchQuery s \<noteq> [] then
           Some (SearchMovies (currentSearchQuery s) (currentPage s))
         else if currentCategory s = ''favorites'' then Some GetFavoriteMovies
         else (case apiMethods (currentCategory s) of
                 Some method \<Rightarrow> Some (ApiMethod method (currentPage s))
               | None \<Rightarrow> None))"
    if "awaiting s = Some c"
    using settled_failure_fields [OF that, of message] retry_derives [OF that, of message]
    by simp
  have 2: "awaiting (loadMovies (loadMovies_settled (Inl message) (loadMovies s))) =
        awaiting (loadMovies s)"
    if "\<not> isLoading s" and "currentSearchQuery s \<noteq> [] \<or> apiMethods (currentCategory s) \<noteq> None"
    using retry_same_call [of s message] that by blast
  have 3: "currentPage (loadMovies_settled (Inl message) (loadMoreMovies s)) = currentPage s + 1 \<and>
         awaiting (loadMovies (loadMovies_settled (Inl message) (loadMoreMovies s))) =
           awaiting (loadMoreMovies s)"
    if a: "\<not> isLoading s" and b: "currentSearchQuery s \<noteq> [] \<or> apiMethods (currentCategory s) \<noteq> None"
      and h: "hasMorePages s"
  proof -
    have eq: "loadMoreMovies s = loadMovies ?s" using a h by (simp add: loadMoreMovies_def)
    have "\<not> isLoading ?s" using a by simp
    moreover have "currentSearchQuery ?s \<noteq> [] \<or> currentCategory ?s = ''favorites'' \<or>
       apiMethods (currentCategory ?s) \<noteq> None" using b by auto
    ultimately show ?thesis
      using retry_same_call [of ?s message] by (simp add: eq)
  qed
  have 4: "fst (getFavoriteMovies (\<lambda>u. None) t0 t1 currentUser ids api) = []"
    if "cache api = Map.empty"
    using favourites_network_down [OF that] .
  have 5: "errorMessage (loadMovies_settled (Inr (FavoriteMovies [])) s) = errorMessage s \<and>
      \<not> hasMorePages (loadMovies_settled (Inr (FavoriteMovies [])) s) \<and>
      \<not> isLoading (loadMovies_settled (Inr (FavoriteMovies [])) s) \<and>
      moviesGrid (loadMovies_settled (Inr (FavoriteMovies [])) s) =
        (if currentPage s = 1 then [EmptyState] else moviesGrid s)"
    if "awaiting s = Some GetFavoriteMovies" and "1 \<le> currentPage s"
    using settled_no_favourites [OF that] .
  from 1 2 3 4 5 show ?thesis by blast
qed


theorem fetch_failure_witness:
  "errorMessage (loadMovies_settled (Inl fetch_failed) (loadMoreMovies first_page)) = Some fetch_failed \<and>
   \<not> isLoading (loadMovies_settled (Inl fetch_failed) (loadMoreMovies first_page)) \<and>
   currentPage first_page = 1 \<and>
   currentPage (loadMovies_settled (Inl fetch_failed) (loadMoreMovies first_page)) = 2 \<and>
   awaiting (loadMovies (loadMovies_settled (Inl fetch_failed) (loadMoreMovies first_page))) =
     Some (ApiMethod ''getTrendingMovies'' 2) \<and>
   awaiting (switchCategory ''popular'' UIManager_new) = Some (ApiMethod ''getTrendingMovies'' 1) \<and>
   awaiting (loadMovies (loadMovies_settled (Inl fetch_failed)
       (switchCategory ''popular'' UIManager_new))) = Some (ApiMethod ''getPopularMovies'' 1) \<and>
   fst (getFavoriteMovies (\<lambda>u. None) 0 1 (JObj [(''id'', JNum 7)]) [JNum 42, JNum 603]
          \<lparr>apiKey = Some ''key'', cache = Map.empty\<rparr>) = [] \<and>
   awaiting (switchCategory ''favorites'' first_page) = Some GetFavoriteMovies \<and>
   errorMessage (loadMovies_settled (Inr (FavoriteMovies []))
       (switchCategory ''favorites'' first_page)) = None \<and>
   \<not> hasMorePages (loadMovies_settled (Inr (FavoriteMovies []))
       (switchCategory ''favorites'' first_page)) \<and>
   moviesGrid (loadMovies_settled (Inr (FavoriteMovies []))
       (switchCategory ''favorites'' first_page)) = [EmptyState]"
proof -
  let ?api = "\<lparr>apiKey = Some ''key'', cache = Map.empty\<rparr>"
  let ?user = "JObj [(''id'', JNum 7)]"
  let ?ids = "[JNum 42, JNum 603]"
  let ?more = "loadMoreMovies first_page"
  let ?pop = "switchCategory ''popular'' UIManager_new"
  let ?fav = "switchCategory ''favorites'' first_page"
  have more: "?more = first_page\<lparr>currentPage := 2, isLoading := True,
      awaiting := Some (ApiMethod ''getTrendingMovies'' 2),
      issued := [ApiMethod ''getTrendingMovies'' 1, ApiMethod ''getTrendingMovies'' 2]\<rparr>"
    by (simp add: first_page_eq loadMoreMovies_def loadMovies_def Let_def hideError_def
        setLoadingState_def suspend_def apiMethods_def)
  have pop: "?pop = UIManager_new\<lparr>currentCategory := ''popular'', moviesGrid := []\<rparr>"
    by (simp add: UIManager_new_eq switchCategory_def clearMoviesGrid_def updateLoadMoreButton_def
        loadMovies_def)
  have fav: "?fav = first_page\<lparr>currentCategory := ''favorites'', isLoading := True,
      moviesGrid := replicate 20 Skeleton, awaiting := Some GetFavoriteMovies,
      issued := [ApiMethod ''getTrendingMovies'' 1, GetFavoriteMovies]\<rparr>"
    by (simp add: first_page_eq switchCategory_def clearMoviesGrid_def updateLoadMoreButton_def
        loadMovies_def Let_def hideError_def setLoadingState_def suspend_def)
  have a: "awaiting ?more = Some (ApiMethod ''getTrendingMovies'' 2) \<and>
      ApiMethod ''getTrendingMovies'' 2 \<noteq> GetFavoriteMovies"
    by (simp add: more)
  have b: "awaiting ?pop = Some (ApiMethod ''getTrendingMovies'' 1) \<and>
      ApiMethod ''getTrendingMovies'' 1 \<noteq> GetFavoriteMovies"
    unfolding pop by (simp add: UIManager_new_eq)
  have c: "\<not> isLoading first_page \<and>
      (currentSearchQuery first_page \<noteq> [] \<or> apiMethods (currentCategory first_page) \<noteq> None) \<and>
      hasMorePages first_page"
    by (simp add: first_page_eq apiMethods_def)
  have d: "cache ?api = Map.empty" by simp
  have e: "awaiting ?fav = Some GetFavoriteMovies \<and> 1 \<le> currentPage ?fav"
    unfolding fav by (simp add: first_page_eq)
  have f1: "currentPage first_page = 1" "errorMessage ?fav = None" "currentPage ?fav = 1"
    "currentSearchQuery ?pop = []" "currentCategory ?pop = ''popular''" "currentPage ?pop = 1"
    "currentPage ?more = 2" "currentSearchQuery ?more = []" "currentCategory ?more = ''trending''"
    unfolding fav pop more by (simp_all add: first_page_eq UIManager_new_eq)
  have m: "apiMethods ''popular'' = Some ''getPopularMovies''"
    "apiMethods ''trending'' = Some ''getTrendingMovies''"
    by (simp_all add: apiMethods_def)
  show ?thesis
    using a b c d e
      fetch_failure [of ?more "ApiMethod ''getTrendingMovies'' 2" fetch_failed ?api 0 1 ?user ?ids]
      fetch_failure [of ?pop "ApiMethod ''getTrendingMovies'' 1" fetch_failed ?api 0 1 ?user ?ids]
      fetch_failure [of first_page GetFavoriteMovies fetch_failed ?api 0 1 ?user ?ids]
      fetch_failure [of ?fav GetFavoriteMovies fetch_failed ?api 0 1 ?user ?ids]
    by (simp add: f1 m)
qed


text \<open>
  C6 as stated fails for a fetch triggered by \<open>loadMoreMovies\<close>: with the first page of
  three shown (page 1, not loading), asking for more and having that fetch fail leaves
  page 2, not the page 1 from which the user asked.
\<close>

theorem failed_loadMore_page_not_restored:
  "\<not> isLoading first_page \<and> hasMorePages first_page \<and> currentPage first_page = 1 \<and>
   awaiting (loadMoreMovies first_page) = Some (ApiMethod ''getTrendingMovies'' 2) \<and>
   currentPage (loadMovies_settled (Inl fetch_failed) (loadMoreMovies first_page)) = 2 \<and>
   errorMessage (loadMovies_settled (Inl fetch_failed) (loadMoreMovies first_page)) = Some fetch_failed"
  by (simp add: first_page_eq loadMoreMovies_def loadMovies_def Let_def hideError_def
      setLoadingState_def suspend_def apiMethods_def loadMovies_settled_def showError_def)

section \<open>Resets while a call is awaited\<close>

lemma performSearch_loading:
  "isLoading s \<Longrightarrow>
   performSearch query s =
     clearMoviesGrid (s\<lparr>currentSearchQuery := trim query, currentPage := 1, hasMorePages := True,
                        searches := searches s @ [query]\<rparr>)"
  by (simp add: performSearch_def loadMovies_loading ui_fields)

lemma switchCategory_loading:
  "isLoading s \<Longrightarrow> \<not> (category = currentCategory s \<and> currentSearchQuery s = []) \<Longrightarrow>
   switchCategory category s =
     clearMoviesGrid (s\<lparr>currentCategory := category, currentPage := 1,
                        currentSearchQuery := [], hasMorePages := True\<rparr>)"
  by (auto simp add: switchCategory_def loadMovies_loading ui_fields)

lemma settled_success_fields:
  assumes "awaiting s = Some c"
  shows "hasMorePages (loadMovies_settled (Inr (ApiResponse \<lparr>results = Some movies, total_pages = tp\<rparr>)) s)
           = (case tp of Some n \<Rightarrow> int (currentPage s) < n | None \<Rightarrow> False)"
    and "isLoading (loadMovies_settled (Inr (ApiResponse \<lparr>results = Some movies, total_pages = tp\<rparr>)) s)
           = False"
    and "currentPage (loadMovies_settled (Inr (ApiResponse \<lparr>results = Some movies, total_pages = tp\<rparr>)) s)
           = currentPage s"
    and "currentCategory (loadMovies_settled (Inr (ApiResponse \<lparr>results = Some movies, total_pages = tp\<rparr>)) s)
           = currentCategory s"
    and "currentSearchQuery (loadMovies_settled (Inr (ApiResponse \<lparr>results = Some movies, total_pages = tp\<rparr>)) s)
           = currentSearchQuery s"
    and "issued (loadMovies_settled (Inr (ApiResponse \<lparr>results = Some movies, total_pages = tp\<rparr>)) s)
           = issued s"
    and "awaiting (loadMovies_settled (Inr (ApiResponse \<lparr>results = Some movies, total_pages = tp\<rparr>)) s)
           = None"
  using assms
  by (simp_all add: loadMovies_settled_def Let_def renderMovies_def setLoadingState_def
      updateLoadMoreButton_def split: option.split)

lemma reset_loading_fields:
  assumes "isLoading s" and "awaiting s = Some c"
    and "r = performSearch query s \<or>
         (r = switchCategory category s \<and>
          \<not> (category = currentCategory s \<and> currentSearchQuery s = []))"
  shows "issued r = issued s" and "awaiting r = Some c" and "isLoading r"
    and "moviesGrid r = []" and "currentPage r = 1"
  using assms
  by (auto simp: performSearch_loading switchCategory_loading ui_fields)

text \<open>
  What a reset does while a call is awaited, from every such state. A search commit, or
  a category switch past its early return, clears the grid and sets page 1, and the
  \<open>loadMovies\<close> it ends with returns at the \<open>isLoading\<close> guard: the earlier call stays
  the one awaited and the list of calls issued is as before. When that call then resolves,
  its movies replace the grid (or the empty-state card does when there are none),
  \<open>hasMorePages\<close> is computed from its page count against page 1, loading ends, and still
  no further call has been issued.
\<close>

theorem reset_while_loading:
  "isLoading s \<and> awaiting s = Some c \<and>
   (r = performSearch query s \<or>
    (r = switchCategory category s \<and>
     \<not> (category = currentCategory s \<and> currentSearchQuery s = []))) \<longrightarrow>
     issued r = issued s \<and> awaiting r = Some c \<and> isLoading r \<and>
     moviesGrid r = [] \<and> currentPage r = 1 \<and>
     moviesGrid (loadMovies_settled
         (Inr (ApiResponse \<lparr>results = Some movies, total_pages = tp\<rparr>)) r) =
       (if movies = [] then [EmptyState] else map MovieCard movies) \<and>
     hasMorePages (loadMovies_settled
         (Inr (ApiResponse \<lparr>results = Some movies, total_pages = tp\<rparr>)) r) =
       (case tp of Some n \<Rightarrow> 1 < n | None \<Rightarrow> False) \<and>
     \<not> isLoading (loadMovies_settled
         (Inr (ApiResponse \<lparr>results = Some movies, total_pages = tp\<rparr>)) r) \<and>
     issued (loadMovies_settled
         (Inr (ApiResponse \<lparr>results = Some movies, total_pages = tp\<rparr>)) r) = issued s"
proof (intro impI)
  assume h: "isLoading s \<and> awaiting s = Some c \<and>
   (r = performSearch query s \<or>
    (r = switchCategory category s \<and>
     \<not> (category = currentCategory s \<and> currentSearchQuery s = [])))"
  then have a: "isLoading s" and b: "awaiting s = Some c"
    and d: "r = performSearch query s \<or>
         (r = switchCategory category s \<and>
          \<not> (category = currentCategory s \<and> currentSearchQuery s = []))"
    by blast+
  note f = reset_loading_fields [OF a b d]
  show "issued r = issued s \<and> awaiting r = Some c \<and> isLoading r \<and>
     moviesGrid r = [] \<and> currentPage r = 1 \<and>
     moviesGrid (loadMovies_settled
         (Inr (ApiResponse \<lparr>results = Some movies, total_pages = tp\<rparr>)) r) =
       (if movies = [] then [EmptyState] else map MovieCard movies) \<and>
     hasMorePages (loadMovies_settled
         (Inr (ApiResponse \<lparr>results = Some movies, total_pages = tp\<rparr>)) r) =
       (case tp of Some n \<Rightarrow> 1 < n | None \<Rightarrow> False) \<and>
     \<not> isLoading (loadMovies_settled
         (Inr (ApiResponse \<lparr>results = Some movies, total_pages = tp\<rparr>)) r) \<and>
     issued (loadMovies_settled
         (Inr (ApiResponse \<lparr>results = Some movies, total_pages = tp\<rparr>)) r) = issued s"
    using f settled_success_grid [OF f(2), of movies tp] settled_success_fields [OF f(2), of movies tp]
    by (simp split: option.split)
qed

theorem reset_while_loading_witness:
  "isLoading UIManager_new \<and> awaiting UIManager_new = Some (ApiMethod ''getTrendingMovies'' 1) \<and>
   issued (switchCategory ''popular'' UIManager_new) = [ApiMethod ''getTrendingMovies'' 1] \<and>
   awaiting (switchCategory ''popular'' UIManager_new) = Some (ApiMethod ''getTrendingMovies'' 1) \<and>
   moviesGrid (loadMovies_settled
       (Inr (ApiResponse \<lparr>results = Some [JStr ''trending''], total_pages = Some 3\<rparr>))
       (switchCategory ''popular'' UIManager_new)) = [MovieCard (JStr ''trending'')]"
proof -
  have u: "UIManager_new = \<lparr>currentPage = 1, currentCategory = ''trending'', currentSearchQuery = [],
      isLoading = True, hasMorePages = True, searchTimeout = None,
      moviesGrid = replicate 20 Skeleton, errorMessage = None, loadMoreBtn = False,
      awaiting = Some (ApiMethod ''getTrendingMovies'' 1),
      issued = [ApiMethod ''getTrendingMovies'' 1], timers = [], nextTimer = 1, searches = []\<rparr>"
    by (simp add: UIManager_new_def initial_fields_def loadMovies_def Let_def
      hideError_def setLoadingState_def suspend_def apiMethods_def)
  show ?thesis
    using reset_while_loading [of UIManager_new "ApiMethod ''getTrendingMovies'' 1"
        "switchCategory ''popular'' UIManager_new" "''''" "''popular''"
        "[JStr ''trending'']" "Some 3"]
    by (simp add: u)
qed

text \<open>
  C1. The claim: a fetch issued under an earlier state has its result discarded when a
  reset has come meanwhile, and the grid shows the results of the newer state. The code
  at this input does otherwise. The page is constructed and awaits the trending movies;
  the user switches to \<^verbatim>\<open>popular\<close>, where \<^verbatim>\<open>switchCategory\<close> sets the category and, under
  its comment \<^verbatim>\<open>// Clear grid and load new content\<close>, calls \<^verbatim>\<open>loadMovies\<close>, which returns
  at its \<open>isLoading\<close> guard; the trending response arrives. Afterwards the category is
  \<^verbatim>\<open>popular\<close>, the grid shows the trending movie, nothing is awaited, and the only call
  ever issued is the one for the trending movies.
\<close>

theorem stale_fetch_is_rendered:
  "awaiting UIManager_new = Some (ApiMethod ''getTrendingMovies'' 1) \<and>
   currentCategory (switchCategory ''popular'' UIManager_new) = ''popular'' \<and>
   currentCategory (loadMovies_settled
       (Inr (ApiResponse \<lparr>results = Some [JStr ''trending''], total_pages = Some 3\<rparr>))
       (switchCategory ''popular'' UIManager_new)) = ''popular'' \<and>
   moviesGrid (loadMovies_settled
       (Inr (ApiResponse \<lparr>results = Some [JStr ''trending''], total_pages = Some 3\<rparr>))
       (switchCategory ''popular'' UIManager_new)) = [MovieCard (JStr ''trending'')] \<and>
   issued (loadMovies_settled
       (Inr (ApiResponse \<lparr>results = Some [JStr ''trending''], total_pages = Some 3\<rparr>))
       (switchCategory ''popular'' UIManager_new)) = [ApiMethod ''getTrendingMovies'' 1] \<and>
   awaiting (loadMovies_settled
       (Inr (ApiResponse \<lparr>results = Some [JStr ''trending''], total_pages = Some 3\<rparr>))
       (switchCategory ''popular'' UIManager_new)) = None"
  by (simp add: UIManager_new_def initial_fields_def loadMovies_def Let_def
      hideError_def setLoadingState_def suspend_def apiMethods_def switchCategory_def
      clearMoviesGrid_def updateLoadMoreButton_def loadMovies_settled_def renderMovies_def)

section \<open>Debounced search\<close>

lemma performSearch_fields:
  "searches (performSearch query s) = searches s @ [query]"
  "currentSearchQuery (performSearch query s) = trim query"
  "timers (performSearch query s) = timers s"
  "searchTimeout (performSearch query s) = searchTimeout s"
  "nextTimer (performSearch query s) = nextTimer s"
  by (simp_all add: performSearch_def loadMovies_frame clearMoviesGrid_def updateLoadMoreButton_def)

lemma advance_not_due:
  "timers s = [t] \<Longrightarrow> now < due t \<Longrightarrow> advance now s = s"
  by (simp add: advance_def)

lemma advance_due:
  "timers s = [t] \<Longrightarrow> due t \<le> now \<Longrightarrow>
   advance now s = performSearch (arg t) (s\<lparr>timers := []\<rparr>)"
  by (simp add: advance_def timerFires_def)

lemma advance_none: "timers s = [] \<Longrightarrow> advance now s = s"
  by (simp add: advance_def)

lemma handleSearch_first:
  "timers s = [] \<Longrightarrow>
   handleSearch now query s =
     s\<lparr>timers := [\<lparr>ident = nextTimer s, due = now + 300, arg = query\<rparr>],
       searchTimeout := Some (nextTimer s), nextTimer := nextTimer s + 1\<rparr>"
  by (simp add: handleSearch_def clearTimeout_def Let_def split: option.split)

lemma handleSearch_cancels:
  "timers s = [t] \<Longrightarrow> searchTimeout s = Some (ident t) \<Longrightarrow> ident t \<noteq> 0 \<Longrightarrow>
   handleSearch now query s =
     s\<lparr>timers := [\<lparr>ident = nextTimer s, due = now + 300, arg = query\<rparr>],
       searchTimeout := Some (nextTimer s), nextTimer := nextTimer s + 1\<rparr>"
  by (simp add: handleSearch_def clearTimeout_def Let_def)

text \<open>One commit is pending; a rapid burst follows.\<close>

lemma keystrokes_pending:
  "timers s = [t] \<Longrightarrow> searchTimeout s = Some (ident t) \<Longrightarrow> ident t \<noteq> 0 \<Longrightarrow>
   nextTimer s \<noteq> 0 \<Longrightarrow> due t = prev + 300 \<Longrightarrow> rapid prev ks \<Longrightarrow>
   \<exists>i. i \<noteq> 0 \<and>
       timers (keystrokes ks s) =
         [\<lparr>ident = i, due = fst (last ((prev, arg t) # ks)) + 300,
           arg = snd (last ((prev, arg t) # ks))\<rparr>] \<and>
       searches (keystrokes ks s) = searches s"
proof (induction ks arbitrary: s t prev)
  case Nil
  then show ?case by (cases t) auto
next
  case (Cons k ks)
  obtain t' q' where k: "k = (t', q')" by (cases k)
  from Cons.prems k have r: "prev \<le> t'" "t' - prev < 300" "rapid t' ks" by simp_all
  have nd: "t' < due t" using r Cons.prems(5) by simp
  have adv: "advance t' s = s" using advance_not_due [OF Cons.prems(1) nd] .
  define s' where "s' = handleSearch t' q' s"
  define n where "n = \<lparr>ident = nextTimer s, due = t' + 300, arg = q'\<rparr>"
  have s': "s' = s\<lparr>timers := [n], searchTimeout := Some (nextTimer s), nextTimer := nextTimer s + 1\<rparr>"
    unfolding s'_def n_def
    using handleSearch_cancels [OF Cons.prems(1) Cons.prems(2) Cons.prems(3)] by simp
  have 1: "timers s' = [n]" by (simp add: s')
  have 2: "searchTimeout s' = Some (ident n)" by (simp add: s' n_def)
  have 3: "ident n \<noteq> 0" using Cons.prems(4) by (simp add: n_def)
  have 4: "nextTimer s' \<noteq> 0" by (simp add: s')
  have 5: "due n = t' + 300" by (simp add: n_def)
  from Cons.IH [OF 1 2 3 4 5 r(3)]
  obtain i where i: "i \<noteq> 0"
    "timers (keystrokes ks s') =
       [\<lparr>ident = i, due = fst (last ((t', arg n) # ks)) + 300, arg = snd (last ((t', arg n) # ks))\<rparr>]"
    "searches (keystrokes ks s') = searches s'"
    by blast
  have ks: "keystrokes (k # ks) s = keystrokes ks s'"
    by (simp add: k adv s'_def)
  have l: "last ((prev, arg t) # k # ks) = last ((t', arg n) # ks)"
    by (simp add: k n_def)
  have "searches s' = searches s" by (simp add: s')
  with i ks l show ?case by auto
qed

text \<open>
  C7. With no commit pending at the start, a burst of one or more keystrokes, each at or
  after the one before and less than 300 ms after it, invokes \<open>performSearch\<close> not at all
  while it lasts and leaves exactly one timeout pending, that of the last keystroke, every
  earlier one having been cleared by the keystroke after it. Once 300 ms have passed since
  the last keystroke, \<open>performSearch\<close> has been invoked exactly once, with the text of
  the last keystroke, whose trimmed form is the search query, and nothing is pending.
\<close>

theorem debounce_single_commit:
  assumes "timers s = []" and "nextTimer s \<noteq> 0"
    and "rapid t ks"
    and "fst (last ((t, query) # ks)) + 300 \<le> T"
  shows "searches (keystrokes ((t, query) # ks) s) = searches s \<and>
         (\<exists>i. timers (keystrokes ((t, query) # ks) s) =
                [\<lparr>ident = i, due = fst (last ((t, query) # ks)) + 300,
                  arg = snd (last ((t, query) # ks))\<rparr>]) \<and>
         searches (advance T (keystrokes ((t, query) # ks) s)) =
           searches s @ [snd (last ((t, query) # ks))] \<and>
         currentSearchQuery (advance T (keystrokes ((t, query) # ks) s)) =
           trim (snd (last ((t, query) # ks))) \<and>
         timers (advance T (keystrokes ((t, query) # ks) s)) = []"
proof -
  define s' where "s' = handleSearch t query s"
  define n where "n = \<lparr>ident = nextTimer s, due = t + 300, arg = query\<rparr>"
  have s': "s' = s\<lparr>timers := [n], searchTimeout := Some (nextTimer s), nextTimer := nextTimer s + 1\<rparr>"
    unfolding s'_def n_def using handleSearch_first [OF assms(1)] by simp
  have 1: "timers s' = [n]" by (simp add: s')
  have 2: "searchTimeout s' = Some (ident n)" by (simp add: s' n_def)
  have 3: "ident n \<noteq> 0" using assms(2) by (simp add: n_def)
  have 4: "nextTimer s' \<noteq> 0" by (simp add: s')
  have 5: "due n = t + 300" by (simp add: n_def)
  have ks: "keystrokes ((t, query) # ks) s = keystrokes ks s'"
    by (simp add: advance_none [OF assms(1)] s'_def)
  define e where "e = keystrokes ks s'"
  define p where "p = last ((t, query) # ks)"
  from keystrokes_pending [OF 1 2 3 4 5 assms(3)]
  obtain i where i: "timers e = [\<lparr>ident = i, due = fst p + 300, arg = snd p\<rparr>]"
    "searches e = searches s'"
    unfolding e_def p_def by (auto simp: n_def)
  have se: "searches e = searches s" using i(2) by (simp add: s')
  have d: "due \<lparr>ident = i, due = fst p + 300, arg = snd p\<rparr> \<le> T"
    using assms(4) by (simp add: p_def)
  have a: "advance T e = performSearch (snd p) (e\<lparr>timers := []\<rparr>)"
    using advance_due [OF i(1) d] by simp
  have "searches e = searches s \<and>
         (\<exists>i. timers e = [\<lparr>ident = i, due = fst p + 300, arg = snd p\<rparr>]) \<and>
         searches (advance T e) = searches s @ [snd p] \<and>
         currentSearchQuery (advance T e) = trim (snd p) \<and>
         timers (advance T e) = []"
    using se i(1) by (simp add: a performSearch_fields)
  then show ?thesis unfolding e_def p_def ks [symmetric] .
qed

theorem debounce_single_commit_witness:
  "rapid 0 [(120, ''du''), (400, ''dune '')] \<and>
   searches (advance 700 (keystrokes [(0, ''d''), (120, ''du''), (400, ''dune '')] first_page))
     = [''dune ''] \<and>
   currentSearchQuery (advance 700 (keystrokes [(0, ''d''), (120, ''du''), (400, ''dune '')] first_page))
     = ''dune''"
proof -
  have f: "timers first_page = []" "nextTimer first_page \<noteq> 0" "searches first_page = []"
    by (simp_all add: first_page_def UIManager_new_def initial_fields_def loadMovies_def Let_def
        hideError_def setLoadingState_def suspend_def apiMethods_def loadMovies_settled_def
        renderMovies_def updateLoadMoreButton_def)
  have r: "rapid 0 [(120, ''du''), (400, ''dune '')]" by simp
  have l: "fst (last ((0, ''d'') # [(120, ''du''), (400, ''dune '')])) + 300 \<le> (700::int)" by simp
  have tr: "trim ''dune '' = ''dune''" by (simp add: trim_def is_ws_def)
  show ?thesis
    using debounce_single_commit [OF f(1) f(2) r l] r f(3) tr by simp
qed

section \<open>The call derived from the browse state\<close>

lemma issued_loadMovies_idle:
  "\<not> isLoading s \<Longrightarrow>
   issued (loadMovies s) = issued s @
     (if currentSearchQuery s \<noteq> [] then [SearchMovies (currentSearchQuery s) (currentPage s)]
      else if currentCategory s = ''favorites'' then [GetFavoriteMovies]
      else (case apiMethods (currentCategory s) of
              Some method \<Rightarrow> [ApiMethod method (currentPage s)]
            | None \<Rightarrow> []))"
  by (simp add: loadMovies_idle ui_fields split: option.split)

lemma settled_favorites:
  "awaiting s = Some c \<Longrightarrow>
   hasMorePages (loadMovies_settled (Inr (FavoriteMovies movies)) s) = (int (currentPage s) < 1) \<and>
   loadMovies_settled (Inr (FavoriteMovies movies)) s =
     loadMovies_settled (Inr (ApiResponse \<lparr>results = Some movies, total_pages = Some 1\<rparr>)) s"
  by (simp add: loadMovies_settled_def Let_def renderMovies_def setLoadingState_def
      updateLoadMoreButton_def)

lemma getFavoriteMovies_single:
  "isAuthenticated currentUser \<Longrightarrow>
   getFavoriteMovies net t0 t1 currentUser [movieId] api =
     (case fetchData net t0 t1 (''/movie/'' @ js_string movieId)
             [(''append_to_response'', JStr ''credits,videos,similar'')] api of
        (r, api', requested) \<Rightarrow>
          (filter (\<lambda>movie. movie \<noteq> JNull) [case r of Inl e \<Rightarrow> JNull | Inr d \<Rightarrow> d],
           api', requested))"
  by (simp add: getFavoriteMovies_def getMovieDetails_start_def fetchData_def Let_def
      split: prod.split sum.split)

lemma dune_scenario:
  assumes "\<not> isLoading s" and "1 < n"
  shows "issued (loadMoreMovies
           (loadMovies_settled (Inr (ApiResponse \<lparr>results = Some movies, total_pages = Some n\<rparr>))
              (performSearch ''dune'' s))) =
         issued s @ [SearchMovies ''dune'' 1, SearchMovies ''dune'' 2]"
proof -
  define p where "p = performSearch ''dune'' s"
  define c where "c = clearMoviesGrid
       (s\<lparr>currentSearchQuery := trim ''dune'', currentPage := 1, hasMorePages := True,
          searches := searches s @ [''dune'']\<rparr>)"
  have tr: "trim ''dune'' = ''dune''" by (simp add: trim_def is_ws_def)
  have pc: "p = loadMovies c" by (simp add: p_def c_def performSearch_def)
  have cf: "\<not> isLoading c" "currentSearchQuery c = ''dune''" "currentPage c = 1" "issued c = issued s"
    using assms(1) by (simp_all add: c_def ui_fields tr)
  have p1: "issued p = issued s @ [SearchMovies ''dune'' 1]"
    using issued_loadMovies_idle [OF cf(1)] cf by (simp add: pc)
  have p2: "awaiting p = Some (SearchMovies ''dune'' 1)"
    using awaiting_loadMovies_idle [OF cf(1)] cf by (simp add: pc)
  have p3: "currentPage p = 1" "currentSearchQuery p = ''dune''"
    using cf by (simp_all add: pc loadMovies_frame)
  define d where "d = loadMovies_settled (Inr (ApiResponse \<lparr>results = Some movies, total_pages = Some n\<rparr>)) p"
  have df: "hasMorePages d" "\<not> isLoading d" "currentPage d = 1" "currentSearchQuery d = ''dune''"
    "issued d = issued s @ [SearchMovies ''dune'' 1]"
    unfolding d_def using settled_success_fields [OF p2, of movies "Some n"] p3 p1 assms(2)
    by simp_all
  define d' where "d' = d\<lparr>currentPage := currentPage d + 1\<rparr>"
  have lm: "loadMoreMovies d = loadMovies d'"
    using df by (simp add: loadMoreMovies_def d'_def)
  have d'f: "\<not> isLoading d'" "currentSearchQuery d' = ''dune''" "currentPage d' = 2"
    "issued d' = issued s @ [SearchMovies ''dune'' 1]"
    using df by (simp_all add: d'_def)
  have "issued (loadMoreMovies d) = issued s @ [SearchMovies ''dune'' 1, SearchMovies ''dune'' 2]"
    using issued_loadMovies_idle [OF d'f(1)] d'f by (simp add: lm)
  then show ?thesis by (simp add: d_def p_def)
qed

text \<open>
  C8, as amended. Whenever \<open>loadMovies\<close> runs and is not already loading, the call it
  awaits is derived from the fields as they are then: with a search query, the search for
  that query and the current page; else, in the category \<^verbatim>\<open>favorites\<close>, the favourite
  movies; else the method of the category with the current page, and no call at all for a
  category without a method. The favourite movies are treated as the single page of a
  result with \<^verbatim>\<open>total_pages = 1\<close>. They do not bypass the cache. For a signed-in user,
  every favourite is looked up in the cache under the URL of its details: the movies
  returned are, in the order of the favourites, the cached details where the lookup finds
  them and otherwise what the network answers, a favourite whose request fails being left
  out; the URLs requested are exactly those of the favourites that the cache does not
  answer, in order; and every answer of the network is in the cache afterwards, stored
  with the time of its arrival. With one favourite this is one \<open>fetchData\<close> of its
  details. On a controller that is not loading, \<open>performSearch\<close> of \<^verbatim>\<open>dune\<close>, then a
  successful response with more than one page, then \<open>loadMoreMovies\<close>, issue the search
  for \<^verbatim>\<open>dune\<close> page 1 and then page 2, and nothing else.
\<close>

theorem query_descriptor:
  "(\<not> isLoading s \<longrightarrow>
      issued (loadMovies s) = issued s @
        (if currentSearchQuery s \<noteq> [] then [SearchMovies (currentSearchQuery s) (currentPage s)]
         else if currentCategory s = ''favorites'' then [GetFavoriteMovies]
         else (case apiMethods (currentCategory s) of
                 Some method \<Rightarrow> [ApiMethod method (currentPage s)]
               | None \<Rightarrow> []))) \<and>
   (awaiting s = Some c \<longrightarrow>
      loadMovies_settled (Inr (FavoriteMovies movies)) s =
        loadMovies_settled (Inr (ApiResponse \<lparr>results = Some movies, total_pages = Some 1\<rparr>)) s) \<and>
   (isAuthenticated currentUser \<longrightarrow>
      getFavoriteMovies net t0 t1 currentUser [movieId] api =
        (case fetchData net t0 t1 (''/movie/'' @ js_string movieId)
                [(''append_to_response'', JStr ''credits,videos,similar'')] api of
           (r, api', requested) \<Rightarrow>
             (filter (\<lambda>movie. movie \<noteq> JNull) [case r of Inl e \<Rightarrow> JNull | Inr d \<Rightarrow> d],
              api', requested)) \<and>
      fst (getFavoriteMovies net t0 t1 currentUser ids api) =
        filter (\<lambda>movie. movie \<noteq> JNull)
          (map (\<lambda>i. if truthy (fst (getCache t0 (details_url api i) (cache api)))
                    then fst (getCache t0 (details_url api i) (cache api))
                    else (case net (details_url api i) of None \<Rightarrow> JNull | Some d \<Rightarrow> d)) ids) \<and>
      snd (snd (getFavoriteMovies net t0 t1 currentUser ids api)) =
        map (details_url api)
          (filter (\<lambda>i. \<not> truthy (fst (getCache t0 (details_url api i) (cache api)))) ids) \<and>
      (\<forall>i\<in>set ids. \<forall>d.
         \<not> truthy (fst (getCache t0 (details_url api i) (cache api))) \<and>
         net (details_url api i) = Some d \<longrightarrow>
           cache (fst (snd (getFavoriteMovies net t0 t1 currentUser ids api))) (details_url api i) =
             Some \<lparr>data = d, timestamp = t1\<rparr>)) \<and>
   (\<not> isLoading s \<and> 1 < n \<longrightarrow>
      issued (loadMoreMovies
           (loadMovies_settled (Inr (ApiResponse \<lparr>results = Some movies, total_pages = Some n\<rparr>))
              (performSearch ''dune'' s))) =
         issued s @ [SearchMovies ''dune'' 1, SearchMovies ''dune'' 2])"
proof -
  have 3: "fst (getFavoriteMovies net t0 t1 currentUser ids api) =
        filter (\<lambda>movie. movie \<noteq> JNull)
          (map (\<lambda>i. if truthy (fst (getCache t0 (details_url api i) (cache api)))
                    then fst (getCache t0 (details_url api i) (cache api))
                    else (case net (details_url api i) of None \<Rightarrow> JNull | Some d \<Rightarrow> d)) ids) \<and>
      snd (snd (getFavoriteMovies net t0 t1 currentUser ids api)) =
        map (details_url api)
          (filter (\<lambda>i. \<not> truthy (fst (getCache t0 (details_url api i) (cache api)))) ids)"
    if "isAuthenticated currentUser"
    by (simp add: getFavoriteMovies_eq [OF that])
  have 4: "\<forall>i\<in>set ids. \<forall>d.
         \<not> truthy (fst (getCache t0 (details_url api i) (cache api))) \<and>
         net (details_url api i) = Some d \<longrightarrow>
           cache (fst (snd (getFavoriteMovies net t0 t1 currentUser ids api))) (details_url api i) =
             Some \<lparr>data = d, timestamp = t1\<rparr>"
    if "isAuthenticated currentUser"
    using favourite_stored [OF that] by blast
  from issued_loadMovies_idle [of s] settled_favorites [of s c movies]
    getFavoriteMovies_single [of currentUser net t0 t1 movieId api]
    dune_scenario [of s n movies] 3 4
  show ?thesis by blast
qed

theorem query_descriptor_witness:
  "issued (loadMoreMovies
       (loadMovies_settled (Inr (ApiResponse \<lparr>results = Some [JStr ''Dune''], total_pages = Some 2\<rparr>))
          (performSearch ''dune'' first_page))) =
     [ApiMethod ''getTrendingMovies'' 1, SearchMovies ''dune'' 1, SearchMovies ''dune'' 2] \<and>
   issued (loadMovies (first_page\<lparr>currentCategory := ''upcoming'', currentPage := 4\<rparr>)) =
     [ApiMethod ''getTrendingMovies'' 1, ApiMethod ''getUpcomingMovies'' 4] \<and>
   awaiting (switchCategory ''favorites'' first_page) = Some GetFavoriteMovies \<and>
   loadMovies_settled (Inr (FavoriteMovies [JStr ''Dune''])) (switchCategory ''favorites'' first_page) =
     loadMovies_settled (Inr (ApiResponse \<lparr>results = Some [JStr ''Dune''], total_pages = Some 1\<rparr>))
       (switchCategory ''favorites'' first_page) \<and>
   isAuthenticated (JObj [(''id'', JNum 7)]) \<and>
   fst (getFavoriteMovies (\<lambda>u. Some (JStr ''from the network'')) 1 2 (JObj [(''id'', JNum 7)])
          [JNum 42, JNum 603]
          \<lparr>apiKey = Some ''key'',
            cache = [URL ''https://api.themoviedb.org/3/movie/603''
                       [(''api_key'', ''key''), (''append_to_response'', ''credits,videos,similar'')]
                     \<mapsto> \<lparr>data = JStr ''from the cache'', timestamp = 0\<rparr>]\<rparr>) =
     [JStr ''from the network'', JStr ''from the cache''] \<and>
   snd (snd (getFavoriteMovies (\<lambda>u. Some (JStr ''from the network'')) 1 2 (JObj [(''id'', JNum 7)])
          [JNum 42, JNum 603]
          \<lparr>apiKey = Some ''key'',
            cache = [URL ''https://api.themoviedb.org/3/movie/603''
                       [(''api_key'', ''key''), (''append_to_response'', ''credits,videos,similar'')]
                     \<mapsto> \<lparr>data = JStr ''from the cache'', timestamp = 0\<rparr>]\<rparr>)) =
     [URL ''https://api.themoviedb.org/3/movie/42''
        [(''api_key'', ''key''), (''append_to_response'', ''credits,videos,similar'')]] \<and>
   cache (fst (snd (getFavoriteMovies (\<lambda>u. Some (JStr ''from the network'')) 1 2
          (JObj [(''id'', JNum 7)]) [JNum 42, JNum 603]
          \<lparr>apiKey = Some ''key'',
            cache = [URL ''https://api.themoviedb.org/3/movie/603''
                       [(''api_key'', ''key''), (''append_to_response'', ''credits,videos,similar'')]
                     \<mapsto> \<lparr>data = JStr ''from the cache'', timestamp = 0\<rparr>]\<rparr>)))
       (URL ''https://api.themoviedb.org/3/movie/42''
          [(''api_key'', ''key''), (''append_to_response'', ''credits,videos,similar'')]) =
     Some \<lparr>data = JStr ''from the network'', timestamp = 2\<rparr>"
proof -
  let ?u42 = "URL ''https://api.themoviedb.org/3/movie/42''
        [(''api_key'', ''key''), (''append_to_response'', ''credits,videos,similar'')]"
  let ?u603 = "URL ''https://api.themoviedb.org/3/movie/603''
        [(''api_key'', ''key''), (''append_to_response'', ''credits,videos,similar'')]"
  let ?api = "\<lparr>apiKey = Some ''key'',
            cache = [?u603 \<mapsto> \<lparr>data = JStr ''from the cache'', timestamp = 0\<rparr>]\<rparr>"
  let ?net = "\<lambda>u::url. Some (JStr ''from the network'')"
  let ?user = "JObj [(''id'', JNum 7)]"
  let ?fav = "switchCategory ''favorites'' first_page"
  have f: "awaiting ?fav = Some GetFavoriteMovies"
    by (simp add: first_page_eq switchCategory_def clearMoviesGrid_def updateLoadMoreButton_def
        loadMovies_def Let_def hideError_def setLoadingState_def suspend_def)
  have u: "isAuthenticated ?user" by (simp add: isAuthenticated_def)
  have 1: "\<not> isLoading first_page \<and> (1::int) < 2" by (simp add: first_page_eq)
  have 2: "\<not> isLoading (first_page\<lparr>currentCategory := ''upcoming'', currentPage := 4\<rparr>)"
    by (simp add: first_page_eq)
  have d: "details_url ?api (JNum 42) = ?u42" "details_url ?api (JNum 603) = ?u603"
    by (simp_all add: details_url_def buildURL_def baseURL_def digits.simps)
  note g = getCache_def cacheExpiry_def
  let ?ids = "[JNum 42, JNum 603]"
  let ?r = "getFavoriteMovies ?net 1 2 ?user ?ids ?api"
  have B: "fst ?r =
        filter (\<lambda>movie. movie \<noteq> JNull)
          (map (\<lambda>i. if truthy (fst (getCache 1 (details_url ?api i) (cache ?api)))
                    then fst (getCache 1 (details_url ?api i) (cache ?api))
                    else (case ?net (details_url ?api i) of None \<Rightarrow> JNull | Some d \<Rightarrow> d)) ?ids) \<and>
      snd (snd ?r) =
        map (details_url ?api)
          (filter (\<lambda>i. \<not> truthy (fst (getCache 1 (details_url ?api i) (cache ?api)))) ?ids) \<and>
      (\<forall>i\<in>set ?ids. \<forall>d.
         \<not> truthy (fst (getCache 1 (details_url ?api i) (cache ?api))) \<and>
         ?net (details_url ?api i) = Some d \<longrightarrow>
           cache (fst (snd ?r)) (details_url ?api i) = Some \<lparr>data = d, timestamp = 2\<rparr>)"
    using u
      query_descriptor [of first_page GetFavoriteMovies "[JStr ''Dune'']" ?user ?net 1 2
        "JNum 42" ?api ?ids 2]
    by blast
  have B1: "fst ?r = [JStr ''from the network'', JStr ''from the cache'']"
    using B by (simp add: d g)
  have B2: "snd (snd ?r) = [?u42]"
    using B by (simp add: d g)
  have B3: "cache (fst (snd ?r)) ?u42 = Some \<lparr>data = JStr ''from the network'', timestamp = 2\<rparr>"
    using B by (simp add: d g)
  have A: "issued (loadMoreMovies
       (loadMovies_settled (Inr (ApiResponse \<lparr>results = Some [JStr ''Dune''], total_pages = Some 2\<rparr>))
          (performSearch ''dune'' first_page))) =
     [ApiMethod ''getTrendingMovies'' 1, SearchMovies ''dune'' 1, SearchMovies ''dune'' 2] \<and>
   issued (loadMovies (first_page\<lparr>currentCategory := ''upcoming'', currentPage := 4\<rparr>)) =
     [ApiMethod ''getTrendingMovies'' 1, ApiMethod ''getUpcomingMovies'' 4] \<and>
   loadMovies_settled (Inr (FavoriteMovies [JStr ''Dune''])) ?fav =
     loadMovies_settled (Inr (ApiResponse \<lparr>results = Some [JStr ''Dune''], total_pages = Some 1\<rparr>))
       ?fav"
    using f 1 2
      query_descriptor [of first_page GetFavoriteMovies "[JStr ''Dune'']" JNull "\<lambda>u. None" 0 0
        JNull "\<lparr>apiKey = None, cache = Map.empty\<rparr>" "[]" 2]
      query_descriptor [of "first_page\<lparr>currentCategory := ''upcoming'', currentPage := 4\<rparr>"
        GetFavoriteMovies "[JStr ''Dune'']" JNull "\<lambda>u. None" 0 0
        JNull "\<lparr>apiKey = None, cache = Map.empty\<rparr>" "[]" 2]
      query_descriptor [of ?fav GetFavoriteMovies "[JStr ''Dune'']" JNull "\<lambda>u. None" 0 0
        JNull "\<lparr>apiKey = None, cache = Map.empty\<rparr>" "[]" 2]
    by (simp add: first_page_eq apiMethods_def)
  from A f u B1 B2 B3 show ?thesis by simp
qed

text \<open>
  C8 as stated fails. With two favourites, 42 and 603, and an empty cache, loading the
  favourite movies requests the details of both from the network and stores both answers
  in the cache under their URLs; loading them again with the network down answers both
  from the cache. And \<open>loadMoreMovies\<close> right after \<open>performSearch\<close>, before the search
  has resolved, issues nothing: only the search for page 1 has been issued.
\<close>

theorem favorites_fill_the_cache:
  "(case getFavoriteMovies (\<lambda>u. case u of URL address ps \<Rightarrow> Some (JStr address)) 0 1
          (JObj [(''id'', JNum 7)]) [JNum 42, JNum 603]
          \<lparr>apiKey = Some ''key'', cache = Map.empty\<rparr> of
      (movies, api', requested) \<Rightarrow>
        movies = [JStr ''https://api.themoviedb.org/3/movie/42'',
                  JStr ''https://api.themoviedb.org/3/movie/603''] \<and>
        requested =
          [URL ''https://api.themoviedb.org/3/movie/42''
             [(''api_key'', ''key''), (''append_to_response'', ''credits,videos,similar'')],
           URL ''https://api.themoviedb.org/3/movie/603''
             [(''api_key'', ''key''), (''append_to_response'', ''credits,videos,similar'')]] \<and>
        cache api'
          (URL ''https://api.themoviedb.org/3/movie/42''
             [(''api_key'', ''key''), (''append_to_response'', ''credits,videos,similar'')]) =
          Some \<lparr>data = JStr ''https://api.themoviedb.org/3/movie/42'', timestamp = 1\<rparr> \<and>
        cache api'
          (URL ''https://api.themoviedb.org/3/movie/603''
             [(''api_key'', ''key''), (''append_to_response'', ''credits,videos,similar'')]) =
          Some \<lparr>data = JStr ''https://api.themoviedb.org/3/movie/603'', timestamp = 1\<rparr> \<and>
        getFavoriteMovies (\<lambda>u. None) 2 3 (JObj [(''id'', JNum 7)]) [JNum 42, JNum 603] api' =
          ([JStr ''https://api.themoviedb.org/3/movie/42'',
            JStr ''https://api.themoviedb.org/3/movie/603''], api', [])) \<and>
   \<not> isLoading first_page \<and>
   issued (loadMoreMovies (performSearch ''dune'' first_page)) =
     issued first_page @ [SearchMovies ''dune'' 1]"
  by (simp add: first_page_eq performSearch_def loadMoreMovies_def clearMoviesGrid_def
      updateLoadMoreButton_def loadMovies_def hideError_def setLoadingState_def suspend_def
      trim_def is_ws_def
      getFavoriteMovies_def isAuthenticated_def getMovieDetails_start_def
      fetchData_start_def fetchData_finish_def buildURL_def baseURL_def getCache_def setCache_def
      cacheExpiry_def digits.simps Let_def)


end
